theory Spec2Isabelle
  imports Complex_Main "HOL-Library.Word"
begin

unbundle bit_operations_syntax

section \<open>Data model\<close>

text \<open>
  The frame processor of \<^verbatim>\<open>edge_detection.cpp\<close> works on OpenCV matrices of 8-bit
  and of double values. A matrix is its header (rows, columns, channel count) and its
  elements in row-major order, the channels of a pixel next to each other.
  The flag \<open>continuous\<close> is what \<^verbatim>\<open>isContinuous()\<close> answers. Doubles are
  modelled by reals: the rounding of the floating-point operations is not modelled.
\<close>

type_synonym u8 = "8 word"

record 'a mat =
  rows :: nat
  cols :: nat
  channels :: nat
  data :: "'a list"
  continuous :: bool

text \<open>\<^verbatim>\<open>Mat::empty()\<close> is \<^verbatim>\<open>data == 0 || total() == 0\<close>.\<close>

definition mat_empty :: "'a mat \<Rightarrow> bool" where
  "mat_empty m = (data m = [] \<or> rows m * cols m = 0)"

text \<open>The channel values of pixel \<open>p\<close> (pixels counted row by row).\<close>

definition pixel :: "'a mat \<Rightarrow> nat \<Rightarrow> 'a list" where
  "pixel m p = take (channels m) (drop (p * channels m) (data m))"

text \<open>
  The C++ functions return \<^verbatim>\<open>false\<close> on every failure and tell the failures apart
  only in the log. The model returns the failure as a value that names the place of the
  \<^verbatim>\<open>return false\<close>: \<open>InvalidInput\<close> is the function's own check of its
  arguments (an empty matrix, a null pointer), \<open>CvException f\<close> is the handler of
  an exception that the OpenCV function \<open>f\<close> has thrown.
\<close>

datatype failure = InvalidInput | CvException string

text \<open>
  A run that leaves what C++ defines (a signed overflow, an access outside a buffer, a
  matrix header with a negative dimension over caller memory) has the outcome
  \<open>Undefined\<close>.
\<close>

datatype 'a outcome = Returned 'a | Undefined

section \<open>The OpenCV functions the frame processor calls\<close>

text \<open>
  OpenCV is not part of the repository. Its functions are modelled as OpenCV documents
  and implements them: by their argument checks (from which the exceptions come) and by
  the shape of their results. The values of the pixels they compute are left open, as
  the fields of \<open>px_kernels\<close>; only the element-wise \<^verbatim>\<open>magnitude\<close>,
  \<^verbatim>\<open>convertTo\<close> and \<^verbatim>\<open>merge\<close> are written out.
\<close>

datatype color_code = COLOR_BGR2GRAY | COLOR_RGBA2GRAY

record px_kernels =
  cvtColor_px :: "color_code \<Rightarrow> u8 list \<Rightarrow> u8"
  GaussianBlur_px :: "u8 mat \<Rightarrow> int \<times> int \<Rightarrow> real \<Rightarrow> nat \<Rightarrow> u8"
  Canny_px :: "u8 mat \<Rightarrow> real \<Rightarrow> real \<Rightarrow> int \<Rightarrow> bool \<Rightarrow> nat \<Rightarrow> u8"
  Sobel_px :: "u8 mat \<Rightarrow> nat \<Rightarrow> nat \<Rightarrow> int \<Rightarrow> nat \<Rightarrow> real"
  cvRound_out_of_range :: "real \<Rightarrow> int"

definition clone :: "'a mat \<Rightarrow> 'a mat" where
  "clone m = m\<lparr>continuous := True\<rparr>"

text \<open>
  \<^verbatim>\<open>cvtColor\<close> with a colour-to-gray code takes 3 or 4 channels and gives one
  channel of the same size.
\<close>

definition cvtColor :: "px_kernels \<Rightarrow> color_code \<Rightarrow> u8 mat \<Rightarrow> failure + u8 mat" where
  "cvtColor px code src =
     (if channels src = 3 \<or> channels src = 4
      then Inr \<lparr>rows = rows src, cols = cols src, channels = 1,
                data = map (\<lambda>p. cvtColor_px px code (pixel src p)) [0..<rows src * cols src],
                continuous = True\<rparr>
      else Inl (CvException ''cvtColor''))"

text \<open>
  \<^verbatim>\<open>cvRound\<close>: to the nearest integer, a tie to the even one; what it gives for
  a value outside the range of \<^verbatim>\<open>int\<close> depends on the platform.
\<close>

definition cvRound :: "px_kernels \<Rightarrow> real \<Rightarrow> int" where
  "cvRound px v =
     (let f = \<lfloor>v\<rfloor>;
          r = (if v - of_int f < 1 / 2 then f
               else if 1 / 2 < v - of_int f then f + 1
               else if even f then f else f + 1)
      in if - 2147483648 \<le> r \<and> r \<le> 2147483647 then r else cvRound_out_of_range px v)"

text \<open>
  \<^verbatim>\<open>GaussianBlur(src, dst, ksize, sigma)\<close>, default border. A dimension of
  size 1 is not filtered; a 1x1 kernel copies; a non-positive kernel size with a
  positive sigma is replaced by one computed from sigma (8-bit input:
  \<^verbatim>\<open>cvRound(sigma*3*2 + 1) | 1\<close>); then the kernel size must be positive and odd
  in both directions, or an exception is thrown.
\<close>

definition auto_ksize :: "px_kernels \<Rightarrow> real \<Rightarrow> int" where
  "auto_ksize px sigma = cvRound px (sigma * 3 * 2 + 1) OR 1"

definition GaussianBlur :: "px_kernels \<Rightarrow> u8 mat \<Rightarrow> int \<times> int \<Rightarrow> real \<Rightarrow> failure + u8 mat" where
  "GaussianBlur px src ksize sigma =
     (let kw = (if cols src = 1 then 1 else fst ksize);
          kh = (if rows src = 1 then 1 else snd ksize)
      in if kw = 1 \<and> kh = 1 then Inr (clone src)
         else
           let kw' = (if kw \<le> 0 \<and> 0 < sigma then auto_ksize px sigma else kw);
               kh' = (if kh \<le> 0 \<and> 0 < sigma then auto_ksize px sigma else kh)
           in if 0 < kw' \<and> kw' mod 2 = 1 \<and> 0 < kh' \<and> kh' mod 2 = 1
              then Inr \<lparr>rows = rows src, cols = cols src, channels = channels src,
                        data = map (GaussianBlur_px px src (kw', kh') sigma)
                                 [0..<length (data src)],
                        continuous = True\<rparr>
              else Inl (CvException ''GaussianBlur''))"

text \<open>
  \<^verbatim>\<open>Canny(image, edges, threshold1, threshold2, apertureSize, L2gradient)\<close>: the
  aperture must be odd and between 3 and 7; the edge map has one channel and the size
  of the image.
\<close>

definition Canny :: "px_kernels \<Rightarrow> u8 mat \<Rightarrow> real \<Rightarrow> real \<Rightarrow> int \<Rightarrow> bool \<Rightarrow> failure + u8 mat" where
  "Canny px src low high aperture L2 =
     (if even aperture \<or> (aperture \<noteq> - 1 \<and> (aperture < 3 \<or> 7 < aperture))
      then Inl (CvException ''Canny'')
      else Inr \<lparr>rows = rows src, cols = cols src, channels = 1,
                data = map (Canny_px px src low high aperture L2) [0..<rows src * cols src],
                continuous = True\<rparr>)"

text \<open>
  \<^verbatim>\<open>Sobel(src, dst, CV_64F, dx, dy, ksize)\<close>: a positive kernel size must be odd
  and at most 31; a non-positive one selects the Scharr kernel, which is for a first
  derivative only. The result has the size and the channels of the source.
\<close>

definition Sobel :: "px_kernels \<Rightarrow> u8 mat \<Rightarrow> nat \<Rightarrow> nat \<Rightarrow> int \<Rightarrow> failure + real mat" where
  "Sobel px src dx dy ksize =
     (if dx + dy = 0 \<or> (0 < ksize \<and> (even ksize \<or> 31 < ksize)) \<or> (ksize \<le> 0 \<and> dx + dy \<noteq> 1)
      then Inl (CvException ''Sobel'')
      else Inr \<lparr>rows = rows src, cols = cols src, channels = channels src,
                data = map (Sobel_px px src dx dy ksize) [0..<length (data src)],
                continuous = True\<rparr>)"

text \<open>\<^verbatim>\<open>magnitude(x, y, dst)\<close>: \<open>sqrt (x\<^sup>2 + y\<^sup>2)\<close> element by element.\<close>

definition magnitude :: "real mat \<Rightarrow> real mat \<Rightarrow> failure + real mat" where
  "magnitude x y =
     (if rows x = rows y \<and> cols x = cols y \<and> channels x = channels y
      then Inr \<lparr>rows = rows x, cols = cols x, channels = channels x,
                data = map2 (\<lambda>a b. sqrt (a\<^sup>2 + b\<^sup>2)) (data x) (data y),
                continuous = True\<rparr>
      else Inl (CvException ''magnitude''))"

text \<open>
  \<^verbatim>\<open>convertTo(dst, CV_8UC1)\<close> applies \<^verbatim>\<open>saturate_cast<uchar>\<close> to every
  element: the value is rounded by \<^verbatim>\<open>cvRound\<close> and then clamped to 0..255. The
  channel count of the target type is ignored.
\<close>

definition saturate_cast_uchar :: "px_kernels \<Rightarrow> real \<Rightarrow> u8" where
  "saturate_cast_uchar px v =
     (let iv = cvRound px v
      in if 0 \<le> iv \<and> iv \<le> 255 then word_of_int iv else if 0 < iv then 255 else 0)"

definition convertTo_8U :: "px_kernels \<Rightarrow> real mat \<Rightarrow> u8 mat" where
  "convertTo_8U px m =
     \<lparr>rows = rows m, cols = cols m, channels = channels m,
      data = map (saturate_cast_uchar px) (data m), continuous = True\<rparr>"

text \<open>
  \<^verbatim>\<open>merge(mv, dst)\<close>: the matrices must have one size; the result has the sum of
  their channels (at most \<^verbatim>\<open>CV_CN_MAX\<close> = 512), and each of its pixels is the
  pixels of the sources one after the other.
\<close>

definition merge :: "'a mat list \<Rightarrow> failure + 'a mat" where
  "merge mv =
     (case mv of
        [] \<Rightarrow> Inl (CvException ''merge'')
      | m0 # _ \<Rightarrow>
          let cn = sum_list (map channels mv)
          in if list_all (\<lambda>m. rows m = rows m0 \<and> cols m = cols m0) mv \<and> 0 < cn \<and> cn \<le> 512
             then Inr \<lparr>rows = rows m0, cols = cols m0, channels = cn,
                       data = concat (map (\<lambda>p. concat (map (\<lambda>m. pixel m p) mv))
                                        [0..<rows m0 * cols m0]),
                       continuous = True\<rparr>
             else Inl (CvException ''merge''))"

section \<open>The frame processor (\<^verbatim>\<open>edge_detection.cpp\<close>)\<close>

text \<open>
  Each function is the body of its \<^verbatim>\<open>try\<close> block; an exception of an OpenCV
  call ends it with the failure that the \<^verbatim>\<open>catch\<close> handler turns into
  \<^verbatim>\<open>return false\<close>. A failed allocation is not modelled. The thresholds and the
  sigma are doubles in the source and reals here.
\<close>

definition applyCanny :: "px_kernels \<Rightarrow> u8 mat \<Rightarrow> real \<Rightarrow> real \<Rightarrow> int \<Rightarrow> failure + u8 mat" where
  "applyCanny px inputMat lowThreshold highThreshold kernelSize =
     (if mat_empty inputMat then Inl InvalidInput
      else
        case (if channels inputMat = 4 then cvtColor px COLOR_RGBA2GRAY inputMat
              else if channels inputMat = 3 then cvtColor px COLOR_BGR2GRAY inputMat
              else Inr (clone inputMat)) of
          Inl e \<Rightarrow> Inl e
        | Inr grayMat \<Rightarrow>
            (case GaussianBlur px grayMat (kernelSize, kernelSize) (14 / 10) of
               Inl e \<Rightarrow> Inl e
             | Inr blurredMat \<Rightarrow> Canny px blurredMat lowThreshold highThreshold 3 False))"

definition applySobel :: "px_kernels \<Rightarrow> u8 mat \<Rightarrow> int \<Rightarrow> failure + u8 mat" where
  "applySobel px inputMat kernelSize =
     (if mat_empty inputMat then Inl InvalidInput
      else
        case (if channels inputMat = 4 then cvtColor px COLOR_RGBA2GRAY inputMat
              else if channels inputMat = 3 then cvtColor px COLOR_BGR2GRAY inputMat
              else Inr (clone inputMat)) of
          Inl e \<Rightarrow> Inl e
        | Inr grayMat \<Rightarrow>
            (case GaussianBlur px grayMat (3, 3) 0 of
               Inl e \<Rightarrow> Inl e
             | Inr blurredMat \<Rightarrow>
                 (case Sobel px blurredMat 1 0 kernelSize of
                    Inl e \<Rightarrow> Inl e
                  | Inr sobelX \<Rightarrow>
                      (case Sobel px blurredMat 0 1 kernelSize of
                         Inl e \<Rightarrow> Inl e
                       | Inr sobelY \<Rightarrow>
                           (case magnitude sobelX sobelY of
                              Inl e \<Rightarrow> Inl e
                            | Inr mag \<Rightarrow> Inr (convertTo_8U px mag))))))"

definition edgeToRGBA :: "u8 mat \<Rightarrow> failure + u8 mat" where
  "edgeToRGBA edgeMat =
     (if mat_empty edgeMat then Inl InvalidInput
      else merge [edgeMat, edgeMat, edgeMat, edgeMat])"

text \<open>
  \<^verbatim>\<open>memcpy(dst + off, src, n)\<close> on buffers of known length; \<open>None\<close> when it
  would read or write outside them.
\<close>

definition memcpy :: "u8 list \<Rightarrow> nat \<Rightarrow> u8 list \<Rightarrow> nat \<Rightarrow> u8 list option" where
  "memcpy dst off src n =
     (if off + n \<le> length dst \<and> n \<le> length src
      then Some (take off dst @ take n src @ drop (off + n) dst)
      else None)"

text \<open>
  The loop of \<open>processFrame\<close> for a matrix that is not continuous: row \<open>i\<close>
  of the matrix goes to offset \<open>i * width * 4\<close>. The counter runs from \<open>i\<close>
  up to \<open>height\<close>; \<open>k\<close> is the number of rows still to copy. The model
  keeps no padding between the rows of a matrix, so row \<open>i\<close> starts at element
  \<open>i * cols * channels\<close>.
\<close>

fun copy_rows :: "u8 list \<Rightarrow> u8 mat \<Rightarrow> nat \<Rightarrow> nat \<Rightarrow> nat \<Rightarrow> u8 list option" where
  "copy_rows dst m width i 0 = Some dst"
| "copy_rows dst m width i (Suc k) =
     (case memcpy dst (i * width * 4) (drop (i * cols m * channels m) (data m)) (width * 4) of
        None \<Rightarrow> None
      | Some dst' \<Rightarrow> copy_rows dst' m width (Suc i) k)"

definition in_int_range :: "int \<Rightarrow> bool" where
  "in_int_range v = (- 2147483648 \<le> v \<and> v \<le> 2147483647)"

text \<open>
  \<^verbatim>\<open>cv::Mat inputMat(height, width, CV_8UC4, (void*)inputData)\<close>: a header over
  the caller's bytes, \<open>width * height * 4\<close> of them.
\<close>

definition frame_mat :: "u8 list \<Rightarrow> int \<Rightarrow> int \<Rightarrow> u8 mat" where
  "frame_mat inp width height =
     \<lparr>rows = nat height, cols = nat width, channels = 4,
      data = take (nat (width * height * 4)) inp, continuous = True\<rparr>"

text \<open>
  \<open>processFrame\<close>: the buffers are pointers in the source, \<open>None\<close> is the null
  pointer. The result is the returned flag and the output buffer after the call.
  The outcome is \<open>Undefined\<close> for a negative dimension, for an input buffer shorter
  than the \<open>width * height * 4\<close> bytes the matrix header covers, when
  \<^verbatim>\<open>width * height * 4\<close> overflows \<^verbatim>\<open>int\<close>, and when the copy would leave
  one of the buffers.
\<close>

definition processFrame ::
  "px_kernels \<Rightarrow> u8 list option \<Rightarrow> int \<Rightarrow> int \<Rightarrow> u8 list option \<Rightarrow> (bool \<times> u8 list option) outcome" where
  "processFrame px inputData width height outputData =
     (case (inputData, outputData) of
        (Some inp, Some out) \<Rightarrow>
          if width < 0 \<or> height < 0 \<or> int (length inp) < width * height * 4 then Undefined
          else
            let inputMat = frame_mat inp width height
            in (case applyCanny px inputMat 50 150 3 of
                  Inl e \<Rightarrow> Returned (False, outputData)
                | Inr edgeMat \<Rightarrow>
                    (case edgeToRGBA edgeMat of
                       Inl e \<Rightarrow> Returned (False, outputData)
                     | Inr outputMat \<Rightarrow>
                         if \<not> in_int_range (width * height * 4) then Undefined
                         else
                           (case (if continuous outputMat
                                  then memcpy out 0 (data outputMat) (nat (width * height * 4))
                                  else copy_rows out outputMat (nat width) 0 (nat height)) of
                              None \<Rightarrow> Undefined
                            | Some out' \<Rightarrow> Returned (True, Some out'))))
      | _ \<Rightarrow> Returned (False, outputData))"

section \<open>The GPU presenter (\<^verbatim>\<open>gl_renderer.cpp\<close>)\<close>

text \<open>
  The renderer talks to the OpenGL ES driver. The model records every GL command it
  issues, in order, together with the objects the application holds: the shader and
  program names it has created and not yet handed to \<^verbatim>\<open>glDeleteShader\<close> or
  \<^verbatim>\<open>glDeleteProgram\<close>. The lines written with \<^verbatim>\<open>LOGE\<close> are kept too.
  What the driver answers (the names it hands out, whether a shader compiles, whether a
  program links, its error flag) is left open, as the fields of \<open>gl_driver\<close>.
\<close>

datatype shader_type = GL_VERTEX_SHADER | GL_FRAGMENT_SHADER

datatype status_query = GL_COMPILE_STATUS | GL_LINK_STATUS

datatype buffer_target = GL_ARRAY_BUFFER | GL_ELEMENT_ARRAY_BUFFER

datatype gl_call =
    GlCreateShader shader_type
  | GlShaderSource nat string
  | GlCompileShader nat
  | GlGetShaderiv nat status_query
  | GlGetShaderInfoLog nat
  | GlDeleteShader nat
  | GlCreateProgram
  | GlAttachShader nat nat
  | GlLinkProgram nat
  | GlGetProgramiv nat status_query
  | GlGetProgramInfoLog nat
  | GlDeleteProgram nat
  | GlGetAttribLocation nat string
  | GlGetUniformLocation nat string
  | GlGetError
  | GlClear_COLOR_BUFFER_BIT
  | GlUseProgram nat
  | GlActiveTexture_TEXTURE0
  | GlBindTexture_2D nat
  | GlUniform1i int int
  | GlBindBuffer buffer_target nat
  | GlVertexAttribPointer_FLOAT int nat nat nat
  | GlEnableVertexAttribArray int
  | GlDrawElements_TRIANGLES_UNSIGNED_INT nat nat
  | GlDisableVertexAttribArray int

record renderer_state =
  gl_calls :: "gl_call list"
  shaders :: "nat list"
  programs :: "nat list"
  VAO :: nat
  VBO :: nat
  EBO :: nat
  loge :: "string list"

record gl_driver =
  create_shader :: "renderer_state \<Rightarrow> shader_type \<Rightarrow> nat"
  compile_status :: "renderer_state \<Rightarrow> nat \<Rightarrow> bool"
  shader_info_log :: "renderer_state \<Rightarrow> nat \<Rightarrow> string"
  create_program :: "renderer_state \<Rightarrow> nat"
  link_status :: "renderer_state \<Rightarrow> nat \<Rightarrow> bool"
  program_info_log :: "renderer_state \<Rightarrow> nat \<Rightarrow> string"
  attrib_location :: "renderer_state \<Rightarrow> nat \<Rightarrow> string \<Rightarrow> int"
  uniform_location :: "renderer_state \<Rightarrow> nat \<Rightarrow> string \<Rightarrow> int"
  get_error :: "renderer_state \<Rightarrow> nat"

record ShaderProgram =
  programId :: nat
  positionAttrib :: int
  texCoordAttrib :: int
  textureUniform :: int
  mvpMatrixUniform :: int

record TextureInfo =
  textureId :: nat
  tex_width :: int
  tex_height :: int
  tex_format :: nat

definition gl :: "gl_call \<Rightarrow> renderer_state \<Rightarrow> renderer_state" where
  "gl c st = st\<lparr>gl_calls := gl_calls st @ [c]\<rparr>"

definition LOGE :: "string \<Rightarrow> renderer_state \<Rightarrow> renderer_state" where
  "LOGE msg st = st\<lparr>loge := loge st @ [msg]\<rparr>"

text \<open>A name 0 is what the driver returns when it cannot create the object.\<close>

definition glCreateShader :: "gl_driver \<Rightarrow> shader_type \<Rightarrow> renderer_state \<Rightarrow> nat \<times> renderer_state" where
  "glCreateShader drv ty st =
     (let shader = create_shader drv st ty; st1 = gl (GlCreateShader ty) st
      in (shader, if shader = 0 then st1 else st1\<lparr>shaders := shader # shaders st1\<rparr>))"

text \<open>\<^verbatim>\<open>glDeleteShader(0)\<close> and \<^verbatim>\<open>glDeleteProgram(0)\<close> are silently ignored.\<close>

definition glDeleteShader :: "nat \<Rightarrow> renderer_state \<Rightarrow> renderer_state" where
  "glDeleteShader shader st =
     (let st1 = gl (GlDeleteShader shader) st
      in if shader = 0 then st1 else st1\<lparr>shaders := remove1 shader (shaders st1)\<rparr>)"

definition glCreateProgram :: "gl_driver \<Rightarrow> renderer_state \<Rightarrow> nat \<times> renderer_state" where
  "glCreateProgram drv st =
     (let program = create_program drv st; st1 = gl GlCreateProgram st
      in (program, if program = 0 then st1 else st1\<lparr>programs := program # programs st1\<rparr>))"

definition glDeleteProgram :: "nat \<Rightarrow> renderer_state \<Rightarrow> renderer_state" where
  "glDeleteProgram program st =
     (let st1 = gl (GlDeleteProgram program) st
      in if program = 0 then st1 else st1\<lparr>programs := remove1 program (programs st1)\<rparr>)"

definition checkGLError :: "gl_driver \<Rightarrow> string \<Rightarrow> renderer_state \<Rightarrow> renderer_state" where
  "checkGLError drv operation st =
     (let error = get_error drv st; st1 = gl GlGetError st
      in if error \<noteq> 0 then LOGE (''OpenGL error after '' @ operation) st1 else st1)"

definition compileShader :: "gl_driver \<Rightarrow> shader_type \<Rightarrow> string \<Rightarrow> renderer_state \<Rightarrow> nat \<times> renderer_state" where
  "compileShader drv ty source st =
     (case glCreateShader drv ty st of
        (shader, st1) \<Rightarrow>
          if shader = 0 then (0, LOGE ''Failed to create shader'' st1)
          else
            let st2 = gl (GlCompileShader shader) (gl (GlShaderSource shader source) st1);
                success = compile_status drv st2 shader;
                st3 = gl (GlGetShaderiv shader GL_COMPILE_STATUS) st2
            in if \<not> success
               then
                 let st4 = gl (GlGetShaderInfoLog shader) st3;
                     st5 = LOGE (''Shader compilation failed: '' @ shader_info_log drv st3 shader) st4
                 in (0, glDeleteShader shader st5)
               else (shader, st3))"

text \<open>
  \<open>createShaderProgram\<close>. The value of \<^verbatim>\<open>success\<close> after
  \<^verbatim>\<open>glGetProgramiv\<close> is what the driver reports (\<open>link_status\<close>).
\<close>

definition createShaderProgram ::
  "gl_driver \<Rightarrow> string \<Rightarrow> string \<Rightarrow> renderer_state \<Rightarrow> ShaderProgram \<times> renderer_state" where
  "createShaderProgram drv vertexShaderSource fragmentShaderSource st =
     (let program = \<lparr>programId = 0, positionAttrib = 0, texCoordAttrib = 0,
                     textureUniform = 0, mvpMatrixUniform = 0\<rparr>
      in case compileShader drv GL_VERTEX_SHADER vertexShaderSource st of
        (vertexShader, st1) \<Rightarrow>
          if vertexShader = 0 then (program, LOGE ''Failed to compile vertex shader'' st1)
          else
            (case compileShader drv GL_FRAGMENT_SHADER fragmentShaderSource st1 of
               (fragmentShader, st2) \<Rightarrow>
                 if fragmentShader = 0
                 then (program,
                       glDeleteShader vertexShader (LOGE ''Failed to compile fragment shader'' st2))
                 else
                   (case glCreateProgram drv st2 of
                      (pid, st3) \<Rightarrow>
                        let st4 = gl (GlLinkProgram pid)
                                    (gl (GlAttachShader pid fragmentShader)
                                       (gl (GlAttachShader pid vertexShader) st3));
                            success = link_status drv st4 pid;
                            st5 = gl (GlGetProgramiv pid GL_LINK_STATUS) st4;
                            linked =
                              (if \<not> success
                               then (0, glDeleteProgram pid
                                          (LOGE (''Shader program linking failed: ''
                                                   @ program_info_log drv st5 pid)
                                             (gl (GlGetProgramInfoLog pid) st5)))
                               else (pid, st5));
                            st7 = glDeleteShader fragmentShader
                                    (glDeleteShader vertexShader (snd linked))
                        in if fst linked \<noteq> 0
                           then
                             let p = fst linked;
                                 st8 = gl (GlGetAttribLocation p ''aPosition'') st7;
                                 st9 = gl (GlGetAttribLocation p ''aTexCoord'') st8;
                                 st10 = gl (GlGetUniformLocation p ''uTexture'') st9;
                                 st11 = gl (GlGetUniformLocation p ''uMVPMatrix'') st10
                             in (\<lparr>programId = p,
                                  positionAttrib = attrib_location drv st7 p ''aPosition'',
                                  texCoordAttrib = attrib_location drv st8 p ''aTexCoord'',
                                  textureUniform = uniform_location drv st9 p ''uTexture'',
                                  mvpMatrixUniform = uniform_location drv st10 p ''uMVPMatrix''\<rparr>,
                                 checkGLError drv ''createShaderProgram'' st11)
                           else (program, checkGLError drv ''createShaderProgram'' st7))))"

text \<open>
  \<open>renderTexture\<close>. The attribute pointers: 2 floats each, a stride of
  \<^verbatim>\<open>4 * sizeof(float)\<close> = 16 bytes, the texture coordinates at offset
  \<^verbatim>\<open>2 * sizeof(float)\<close> = 8 bytes.
\<close>

definition renderTexture :: "gl_driver \<Rightarrow> ShaderProgram \<Rightarrow> TextureInfo \<Rightarrow> renderer_state \<Rightarrow> renderer_state" where
  "renderTexture drv shaderProgram textureInfo st =
     (if programId shaderProgram = 0 \<or> textureId textureInfo = 0
      then LOGE ''Invalid shader program or texture'' st
      else
        let st1 = gl GlClear_COLOR_BUFFER_BIT st;
            st2 = gl (GlUseProgram (programId shaderProgram)) st1;
            st3 = gl GlActiveTexture_TEXTURE0 st2;
            st4 = gl (GlBindTexture_2D (textureId textureInfo)) st3;
            st5 = gl (GlUniform1i (textureUniform shaderProgram) 0) st4;
            st6 = gl (GlBindBuffer GL_ARRAY_BUFFER (VBO st5)) st5;
            st7 = gl (GlVertexAttribPointer_FLOAT (positionAttrib shaderProgram) 2 16 0) st6;
            st8 = gl (GlEnableVertexAttribArray (positionAttrib shaderProgram)) st7;
            st9 = gl (GlVertexAttribPointer_FLOAT (texCoordAttrib shaderProgram) 2 16 8) st8;
            st10 = gl (GlEnableVertexAttribArray (texCoordAttrib shaderProgram)) st9;
            st11 = gl (GlBindBuffer GL_ELEMENT_ARRAY_BUFFER (EBO st10)) st10;
            st12 = gl (GlDrawElements_TRIANGLES_UNSIGNED_INT 6 0) st11;
            st13 = gl (GlDisableVertexAttribArray (positionAttrib shaderProgram)) st12;
            st14 = gl (GlDisableVertexAttribArray (texCoordAttrib shaderProgram)) st13
        in checkGLError drv ''renderTexture'' st14)"

section \<open>The boundary layer (\<^verbatim>\<open>jni_bridge.cpp\<close>)\<close>

text \<open>
  The value of the double \<^verbatim>\<open>averageFps\<close>: a real, or the infinity that the
  division by a zero duration gives.
\<close>

datatype dbl = Finite real | PlusInfinity

record stats =
  lastFrameTime :: int
  frameCount :: int
  averageFps :: dbl

text \<open>
  What the Java runtime and the clock answer during one call of the boundary-layer
  \<open>processFrame\<close>: whether \<^verbatim>\<open>GetByteArrayElements\<close> and
  \<^verbatim>\<open>NewByteArray\<close> give a non-null result, and the two readings of the clock
  (in its ticks, nanoseconds).
\<close>

record jni_env =
  input_elements :: bool
  new_array :: bool
  output_elements :: bool
  frameStart :: int
  frameEnd :: int

text \<open>C++ integer division and remainder truncate towards zero.\<close>

definition c_div :: "int \<Rightarrow> int \<Rightarrow> int" where
  "c_div a b = sgn a * sgn b * (\<bar>a\<bar> div \<bar>b\<bar>)"

definition c_rem :: "int \<Rightarrow> int \<Rightarrow> int" where
  "c_rem a b = a - b * c_div a b"

text \<open>\<^verbatim>\<open>duration_cast<milliseconds>(t1 - t0).count()\<close>.\<close>

definition duration_ms :: "int \<Rightarrow> int \<Rightarrow> int" where
  "duration_ms t1 t0 = c_div (t1 - t0) 1000000"

text \<open>\<^verbatim>\<open>30000.0 / totalDuration\<close> in double arithmetic.\<close>

definition fps_of :: "int \<Rightarrow> dbl" where
  "fps_of totalDuration =
     (if totalDuration = 0 then PlusInfinity else Finite (30000 / of_int totalDuration))"

definition nativeInit :: "int \<Rightarrow> stats" where
  "nativeInit now = \<lparr>lastFrameTime = now, frameCount = 0, averageFps = Finite 0\<rparr>"

definition cleanup :: "stats \<Rightarrow> stats" where
  "cleanup st = st\<lparr>frameCount := 0, averageFps := Finite 0\<rparr>"

text \<open>
  The boundary-layer \<open>processFrame\<close>. The input array is \<open>None\<close> when the
  Java reference is null. The result is the returned array (\<open>None\<close> for
  \<^verbatim>\<open>nullptr\<close>) and the counters after the call. The new array is filled with
  zeros by the runtime.
\<close>

definition JNI_processFrame ::
  "px_kernels \<Rightarrow> jni_env \<Rightarrow> stats \<Rightarrow> u8 list option \<Rightarrow> int \<Rightarrow> int \<Rightarrow> (u8 list option \<times> stats) outcome" where
  "JNI_processFrame px env st inputArray width height =
     (case inputArray of
        None \<Rightarrow> Returned (None, st)
      | Some inputBytes \<Rightarrow>
          if \<not> input_elements env then Returned (None, st)
          else if \<not> in_int_range (width * height) \<or> \<not> in_int_range (width * height * 4)
          then Undefined
          else if int (length inputBytes) \<noteq> width * height * 4 then Returned (None, st)
          else if \<not> new_array env then Returned (None, st)
          else if \<not> output_elements env then Returned (None, st)
          else
            (case processFrame px (Some inputBytes) width height
                    (Some (replicate (length inputBytes) 0)) of
               Undefined \<Rightarrow> Undefined
             | Returned (success, outputBytes) \<Rightarrow>
                 if \<not> success then Returned (None, st)
                 else if \<not> in_int_range (frameCount st + 1) then Undefined
                 else
                   let st1 = st\<lparr>frameCount := frameCount st + 1\<rparr>
                   in if c_rem (frameCount st1) 30 = 0
                      then Returned (outputBytes,
                             st1\<lparr>averageFps := fps_of (duration_ms (frameEnd env) (lastFrameTime st1)),
                                 lastFrameTime := frameEnd env\<rparr>)
                      else Returned (outputBytes, st1)))"

text \<open>A sequence of calls of the boundary-layer \<open>processFrame\<close>, one after the other.\<close>

type_synonym frame_call = "jni_env \<times> u8 list option \<times> int \<times> int"

fun process_frames ::
  "px_kernels \<Rightarrow> stats \<Rightarrow> frame_call list \<Rightarrow> (u8 list option list \<times> stats) outcome" where
  "process_frames px st [] = Returned ([], st)"
| "process_frames px st ((env, inputArray, width, height) # calls) =
     (case JNI_processFrame px env st inputArray width height of
        Undefined \<Rightarrow> Undefined
      | Returned (r, st1) \<Rightarrow>
          (case process_frames px st1 calls of
             Undefined \<Rightarrow> Undefined
           | Returned (rs, st2) \<Rightarrow> Returned (r # rs, st2)))"

section \<open>Concrete inputs\<close>

text \<open>
  An instance of the pixel kernels and of the driver, to evaluate the functions at
  concrete inputs. The theorems below hold for every instance.

  For the Sobel path (3x3 kernels, sigma 0) the instance computes what OpenCV
  computes: the smoothing kernel \<open>[1 2 1] / 4\<close> in each filtered direction, the
  Sobel kernels \<open>[-1 0 1]\<close> and \<open>[1 2 1]\<close>, and the default border
  \<^verbatim>\<open>BORDER_REFLECT_101\<close>. The other kernels (colour conversion, the blur with a
  positive sigma, Canny, a Sobel kernel of another size) are stand-ins.
\<close>

text \<open>
  \<^verbatim>\<open>BORDER_REFLECT_101\<close> for a position at most one step outside \<open>0..<len\<close>:
  \<open>-1\<close> is mirrored to \<open>1\<close> and \<open>len\<close> to \<open>len - 2\<close>; a dimension of
  length 1 has the one position 0.
\<close>

definition borderInterpolate :: "int \<Rightarrow> nat \<Rightarrow> nat" where
  "borderInterpolate p len =
     (if len = 1 then 0
      else if p < 0 then nat (- p)
      else if int len \<le> p then nat (2 * int len - 2 - p)
      else nat p)"

text \<open>The value at row \<open>r\<close>, column \<open>c\<close>, channel \<open>ch\<close>, with the border.\<close>

definition elem :: "u8 mat \<Rightarrow> int \<Rightarrow> int \<Rightarrow> nat \<Rightarrow> int" where
  "elem m r c ch =
     uint (data m ! ((borderInterpolate r (rows m) * cols m + borderInterpolate c (cols m))
                      * channels m + ch))"

text \<open>
  A one-dimensional kernel as its taps (offset, weight): \<open>[1 2 1]\<close> for the size
  3 and \<open>[1]\<close> for the size 1, and the derivative \<open>[-1 0 1]\<close>. \<open>filter_at\<close>
  applies a vertical and a horizontal kernel at the element with index \<open>i\<close>.
\<close>

definition smooth_taps :: "int \<Rightarrow> (int \<times> int) list" where
  "smooth_taps k = (if k = 3 then [(- 1, 1), (0, 2), (1, 1)] else [(0, 1)])"

definition deriv_taps :: "(int \<times> int) list" where
  "deriv_taps = [(- 1, - 1), (0, 0), (1, 1)]"

definition filter_at :: "u8 mat \<Rightarrow> (int \<times> int) list \<Rightarrow> (int \<times> int) list \<Rightarrow> nat \<Rightarrow> int" where
  "filter_at m ty tx i =
     (let n = cols m * channels m;
          r = int (i div n);
          c = int ((i mod n) div channels m);
          ch = i mod channels m
      in sum_list (map (\<lambda>(dy, wy).
           sum_list (map (\<lambda>(dx, wx). wy * wx * elem m (r + dy) (c + dx) ch) tx)) ty))"

definition sample_px :: px_kernels where
  "sample_px =
     \<lparr>cvtColor_px = (\<lambda>code p. case p of [] \<Rightarrow> 0 | v # _ \<Rightarrow> v),
      GaussianBlur_px = (\<lambda>src ksize sigma i.
         if sigma \<le> 0 \<and> (fst ksize = 1 \<or> fst ksize = 3) \<and> (snd ksize = 1 \<or> snd ksize = 3)
         then
           let norm = (if fst ksize = 3 then 4 else 1) * (if snd ksize = 3 then 4 else 1)
           in word_of_int ((filter_at src (smooth_taps (snd ksize)) (smooth_taps (fst ksize)) i
                             + norm div 2) div norm)
         else data src ! i),
      Canny_px = (\<lambda>src low high aperture L2 i. if 128 \<le> data src ! i then 255 else 0),
      Sobel_px = (\<lambda>src dx dy ksize i.
         if ksize = 3
         then of_int (filter_at src (if dy = 1 then deriv_taps else smooth_taps 3)
                        (if dx = 1 then deriv_taps else smooth_taps 3) i)
         else 0),
      cvRound_out_of_range = (\<lambda>v. - 2147483648)\<rparr>"

definition sample_driver :: gl_driver where
  "sample_driver =
     \<lparr>create_shader = (\<lambda>st ty. Suc (length (gl_calls st))),
      compile_status = (\<lambda>st shader. GlShaderSource shader ''bad'' \<notin> set (gl_calls st)),
      shader_info_log = (\<lambda>st shader. ''error''),
      create_program = (\<lambda>st. Suc (length (gl_calls st))),
      link_status = (\<lambda>st program. GlShaderSource 1 ''unlinkable'' \<notin> set (gl_calls st)),
      program_info_log = (\<lambda>st program. ''error''),
      attrib_location = (\<lambda>st program name. if name = ''aPosition'' then 0 else 1),
      uniform_location = (\<lambda>st program name. if name = ''uTexture'' then 0 else - 1),
      get_error = (\<lambda>st. 0)\<rparr>"

definition initial_renderer :: renderer_state where
  "initial_renderer =
     \<lparr>gl_calls = [], shaders = [], programs = [], VAO = 1, VBO = 2, EBO = 3, loge = []\<rparr>"

definition sample_edge :: "u8 mat" where
  "sample_edge = \<lparr>rows = 1, cols = 2, channels = 1, data = [0, 255], continuous = True\<rparr>"

definition empty_mat :: "u8 mat" where
  "empty_mat = \<lparr>rows = 0, cols = 0, channels = 1, data = [], continuous = True\<rparr>"

definition sample_frame :: "u8 list" where
  "sample_frame = [200, 0, 0, 255, 10, 0, 0, 255]"

definition sample_output :: "u8 list" where
  "sample_output = [1, 2, 3, 4, 5, 6, 7, 8]"

definition step_row :: "u8 mat" where
  "step_row = \<lparr>rows = 1, cols = 4, channels = 1, data = [0, 0, 200, 200], continuous = True\<rparr>"

definition blurred_step_row :: "u8 mat" where
  "blurred_step_row =
     \<lparr>rows = 1, cols = 4, channels = 1, data = [0, 50, 150, 200], continuous = True\<rparr>"


definition four_channel_mat :: "u8 mat" where
  "four_channel_mat =
     \<lparr>rows = 2, cols = 2, channels = 4,
      data = [200, 0, 0, 255, 10, 0, 0, 255, 130, 0, 0, 255, 0, 0, 0, 255], continuous = True\<rparr>"

text \<open>
  The value that claim C1 gives for a pixel with the gradients \<open>gx\<close> and
  \<open>gy\<close>, in the claim's words: \<^verbatim>\<open>(int)(sqrt(gx^2 + gy^2)) mod 256\<close>.
\<close>

definition spec_truncated_magnitude :: "real \<Rightarrow> real \<Rightarrow> u8" where
  "spec_truncated_magnitude gx gy = word_of_int (\<lfloor>sqrt (gx\<^sup>2 + gy\<^sup>2)\<rfloor> mod 256)"

definition sample_program :: ShaderProgram where
  "sample_program = \<lparr>programId = 5, positionAttrib = 0, texCoordAttrib = 1,
                      textureUniform = 0, mvpMatrixUniform = - 1\<rparr>"

definition sample_texture :: TextureInfo where
  "sample_texture = \<lparr>textureId = 7, tex_width = 2, tex_height = 1, tex_format = 6408\<rparr>"

definition sample_env :: jni_env where
  "sample_env = \<lparr>input_elements = True, new_array = True, output_elements = True,
                  frameStart = 1000000000, frameEnd = 2000000000\<rparr>"

definition sample_call :: frame_call where
  "sample_call = (sample_env, Some sample_frame, 2, 1)"

definition late_env :: jni_env where
  "late_env = \<lparr>input_elements = True, new_array = True, output_elements = True,
                frameStart = 1400000000, frameEnd = 1500999999\<rparr>"

definition instant_env :: jni_env where
  "instant_env = \<lparr>input_elements = True, new_array = True, output_elements = True,
                   frameStart = 0, frameEnd = 999999\<rparr>"

section \<open>Properties of the frame processor\<close>

lemma length_concat_const:
  "(\<And>p. p < n \<Longrightarrow> length (f p) = k) \<Longrightarrow> length (concat (map f [0..<n])) = n * k"
  by (induction n) simp_all

lemma nth_concat_const:
  assumes "\<And>p. p < n \<Longrightarrow> length (f p) = k" and "p < n" and "c < k"
  shows "concat (map f [0..<n]) ! (p * k + c) = f p ! c"
  using assms
proof (induction n)
  case 0
  then show ?case by simp
next
  case (Suc n)
  have len: "length (concat (map f [0..<n])) = n * k"
    using Suc.prems(1) by (simp add: length_concat_const)
  show ?case
  proof (cases "p < n")
    case True
    then have "Suc p \<le> n" by simp
    then have "Suc p * k \<le> n * k" by (rule mult_le_mono1)
    with \<open>c < k\<close> have "p * k + c < n * k" by simp
    with True Suc len show ?thesis by (simp add: nth_append)
  next
    case False
    with Suc.prems have "p = n" by simp
    with Suc.prems len show ?thesis by (simp add: nth_append)
  qed
qed

lemma pixel_single_channel:
  "channels m = 1 \<Longrightarrow> p < length (data m) \<Longrightarrow> pixel m p = [data m ! p]"
  by (simp add: pixel_def take_Suc_conv_app_nth)

lemma merge_four_single_channel:
  assumes "channels e = 1" and "length (data e) = rows e * cols e"
  shows "\<exists>out. merge [e, e, e, e] = Inr out \<and> rows out = rows e \<and> cols out = cols e \<and>
           channels out = 4 \<and> continuous out \<and>
           data out = concat (map (\<lambda>p. replicate 4 (data e ! p)) [0..<rows e * cols e])"
proof -
  have "map (\<lambda>p. concat (map (\<lambda>m. pixel m p) [e, e, e, e])) [0..<rows e * cols e]
             = map (\<lambda>p. replicate 4 (data e ! p)) [0..<rows e * cols e]"
    using assms by (intro map_cong refl) (simp add: pixel_single_channel numeral_eq_Suc)
  then show ?thesis using assms by (simp add: merge_def del: concat.simps map_eq_conv)
qed

lemma replicated_data_length:
  "length (concat (map (\<lambda>p. replicate 4 (d ! p)) [0..<n])) = n * 4"
  by (rule length_concat_const) simp

lemma replicated_data_nth:
  "p < n \<Longrightarrow> c < 4 \<Longrightarrow> concat (map (\<lambda>p. replicate 4 (d ! p)) [0..<n]) ! (p * 4 + c) = d ! p"
  by (subst nth_concat_const [where k = 4]) simp_all

text \<open>
  Claim C5. \<open>edgeToRGBA\<close> (the spec's expandToDisplayFormat) fails with
  \<open>InvalidInput\<close> on an empty edge map. On a non-empty single-channel edge map it
  gives a 4-channel matrix of the same size in which all four channel values of every
  pixel equal the intensity of that pixel in the edge map (so an edge map of one value
  \<open>V\<close> gives R = G = B = A = \<open>V\<close> everywhere).
\<close>

theorem edgeToRGBA_replicates_intensity:
  "(mat_empty e \<longrightarrow> edgeToRGBA e = Inl InvalidInput) \<and>
   (\<not> mat_empty e \<and> channels e = 1 \<and> length (data e) = rows e * cols e \<longrightarrow>
      (\<exists>out. edgeToRGBA e = Inr out \<and> rows out = rows e \<and> cols out = cols e \<and>
         channels out = 4 \<and> length (data out) = rows e * cols e * 4 \<and>
         (\<forall>p < rows e * cols e. \<forall>c < 4. data out ! (p * 4 + c) = data e ! p)))"
proof (intro conjI impI)
  assume "mat_empty e"
  then show "edgeToRGBA e = Inl InvalidInput" by (simp add: edgeToRGBA_def)
next
  assume h: "\<not> mat_empty e \<and> channels e = 1 \<and> length (data e) = rows e * cols e"
  then obtain out where out: "merge [e, e, e, e] = Inr out" "rows out = rows e"
      "cols out = cols e" "channels out = 4"
      "data out = concat (map (\<lambda>p. replicate 4 (data e ! p)) [0..<rows e * cols e])"
    using merge_four_single_channel [of e] by blast
  have "edgeToRGBA e = Inr out" using h out(1) by (simp add: edgeToRGBA_def)
  moreover have "length (data out) = rows e * cols e * 4"
    by (simp add: out(5) replicated_data_length)
  moreover have "\<forall>p < rows e * cols e. \<forall>c < 4. data out ! (p * 4 + c) = data e ! p"
    by (simp add: out(5) replicated_data_nth)
  ultimately show "\<exists>out. edgeToRGBA e = Inr out \<and> rows out = rows e \<and> cols out = cols e \<and>
         channels out = 4 \<and> length (data out) = rows e * cols e * 4 \<and>
         (\<forall>p < rows e * cols e. \<forall>c < 4. data out ! (p * 4 + c) = data e ! p)"
    using out by blast
qed

theorem edgeToRGBA_replicates_intensity_witness:
  "mat_empty empty_mat \<and> edgeToRGBA empty_mat = Inl InvalidInput \<and>
   \<not> mat_empty sample_edge \<and> channels sample_edge = 1 \<and>
   length (data sample_edge) = rows sample_edge * cols sample_edge \<and>
   (\<exists>out. edgeToRGBA sample_edge = Inr out \<and> channels out = 4 \<and> length (data out) = 8 \<and>
      data out ! (1 * 4 + 0) = 255 \<and> data out ! (1 * 4 + 1) = 255 \<and>
      data out ! (1 * 4 + 2) = 255 \<and> data out ! (1 * 4 + 3) = 255 \<and> data out ! (0 * 4 + 3) = 0)"
proof -
  have e: "mat_empty empty_mat" by (simp add: mat_empty_def empty_mat_def)
  have s: "\<not> mat_empty sample_edge \<and> channels sample_edge = 1 \<and>
      length (data sample_edge) = rows sample_edge * cols sample_edge"
    by (simp add: mat_empty_def sample_edge_def)
  from edgeToRGBA_replicates_intensity [of empty_mat] e
  have 1: "edgeToRGBA empty_mat = Inl InvalidInput" by blast
  from edgeToRGBA_replicates_intensity [of sample_edge] s
  obtain out where out: "edgeToRGBA sample_edge = Inr out" "channels out = 4"
     "length (data out) = rows sample_edge * cols sample_edge * 4"
     "\<forall>p < rows sample_edge * cols sample_edge. \<forall>c < 4. data out ! (p * 4 + c) = data sample_edge ! p"
    by blast
  have r: "rows sample_edge * cols sample_edge = 2" by (simp add: sample_edge_def)
  have d: "data sample_edge ! 1 = 255" "data sample_edge ! 0 = 0" by (simp_all add: sample_edge_def)
  have q: "data out ! (p * 4 + c) = data sample_edge ! p" if "p < 2" "c < 4" for p c
    using out(4) that unfolding r by blast
  have "data out ! (1 * 4 + 0) = 255" "data out ! (1 * 4 + 1) = 255"
      "data out ! (1 * 4 + 2) = 255" "data out ! (1 * 4 + 3) = 255" "data out ! (0 * 4 + 3) = 0"
    using q [of 1 0] q [of 1 1] q [of 1 2] q [of 1 3] q [of 0 3] d by simp_all
  with e 1 s out(1,2,3) r show ?thesis by auto
qed

subsection \<open>Shapes of the intermediate matrices\<close>

lemma gray_shape:
  assumes "(if channels m = 4 then cvtColor px COLOR_RGBA2GRAY m
            else if channels m = 3 then cvtColor px COLOR_BGR2GRAY m
            else Inr (clone m)) = Inr g"
  shows "rows g = rows m \<and> cols g = cols m"
  using assms by (auto simp: cvtColor_def clone_def split: if_splits)

lemma GaussianBlur_shape:
  "GaussianBlur px g ksize sigma = Inr b \<Longrightarrow>
     rows b = rows g \<and> cols b = cols g \<and> channels b = channels g \<and>
     length (data b) = length (data g)"
  by (auto simp: GaussianBlur_def clone_def Let_def split: if_splits)

lemma Canny_shape:
  "Canny px b lo hi ap L2 = Inr e \<Longrightarrow>
     rows e = rows b \<and> cols e = cols b \<and> channels e = 1 \<and>
     length (data e) = rows b * cols b \<and> continuous e"
  by (auto simp: Canny_def split: if_splits)

lemma applyCanny_shape:
  assumes "applyCanny px m lo hi k = Inr e"
  shows "rows e = rows m \<and> cols e = cols m \<and> channels e = 1 \<and>
         length (data e) = rows m * cols m \<and> \<not> mat_empty e"
proof -
  from assms have ne: "\<not> mat_empty m"
    by (auto simp: applyCanny_def split: if_splits)
  from assms ne obtain g b where
    g: "(if channels m = 4 then cvtColor px COLOR_RGBA2GRAY m
         else if channels m = 3 then cvtColor px COLOR_BGR2GRAY m
         else Inr (clone m)) = Inr g"
    and b: "GaussianBlur px g (k, k) (14 / 10) = Inr b"
    and e: "Canny px b lo hi 3 False = Inr e"
    unfolding applyCanny_def by (simp split: sum.splits)
  from gray_shape [OF g] GaussianBlur_shape [OF b] Canny_shape [OF e]
  have s: "rows e = rows m" "cols e = cols m" "channels e = 1" "length (data e) = rows m * cols m"
    by simp_all
  moreover from ne s have "\<not> mat_empty e"
    by (auto simp: mat_empty_def)
  ultimately show ?thesis by simp
qed

lemma edgeToRGBA_shape:
  assumes "\<not> mat_empty e" "channels e = 1" "length (data e) = rows e * cols e"
  shows "\<exists>out. edgeToRGBA e = Inr out \<and> rows out = rows e \<and> cols out = cols e \<and>
           channels out = 4 \<and> continuous out \<and> length (data out) = rows e * cols e * 4"
proof -
  from merge_four_single_channel [OF assms(2,3)] obtain out where
    "merge [e, e, e, e] = Inr out" "rows out = rows e" "cols out = cols e" "channels out = 4"
    "continuous out" "data out = concat (map (\<lambda>p. replicate 4 (data e ! p)) [0..<rows e * cols e])"
    by blast
  with assms(1) show ?thesis
    by (simp add: edgeToRGBA_def replicated_data_length)
qed

lemma memcpy_prefix:
  "n \<le> length dst \<Longrightarrow> length src = n \<Longrightarrow> memcpy dst 0 src n = Some (src @ drop n dst)"
  by (simp add: memcpy_def)

lemma applyCanny_sample_frame:
  "applyCanny sample_px (frame_mat sample_frame 2 1) 50 150 3 =
     Inr \<lparr>rows = 1, cols = 2, channels = 1, data = [255, 0], continuous = True\<rparr>"
  by code_simp

lemma edgeToRGBA_sample:
  "edgeToRGBA \<lparr>rows = 1, cols = 2, channels = 1, data = [255, 0], continuous = True\<rparr> =
     Inr \<lparr>rows = 1, cols = 2, channels = 4, data = [255, 255, 255, 255, 0, 0, 0, 0],
          continuous = True\<rparr>"
  by code_simp

subsection \<open>The real-time pipeline\<close>

lemma edgeToRGBA_pixels:
  assumes "\<not> mat_empty e" "channels e = 1" "length (data e) = rows e * cols e"
  shows "\<exists>out. edgeToRGBA e = Inr out \<and> rows out = rows e \<and> cols out = cols e \<and>
           channels out = 4 \<and> length (data out) = rows e * cols e * 4 \<and>
           (\<forall>p < rows e * cols e. \<forall>c < 4. data out ! (p * 4 + c) = data e ! p)"
proof -
  from merge_four_single_channel [OF assms(2,3)] obtain out where
    o: "merge [e, e, e, e] = Inr out" "rows out = rows e" "cols out = cols e" "channels out = 4"
    "data out = concat (map (\<lambda>p. replicate 4 (data e ! p)) [0..<rows e * cols e])"
    by blast
  have "edgeToRGBA e = Inr out" using assms(1) o(1) by (simp add: edgeToRGBA_def)
  moreover have "length (data out) = rows e * cols e * 4"
    by (simp add: o(5) replicated_data_length)
  moreover have "\<forall>p < rows e * cols e. \<forall>c < 4. data out ! (p * 4 + c) = data e ! p"
    by (simp add: o(5) replicated_data_nth)
  ultimately show ?thesis using o(2,3,4) by blast
qed

lemma frame_mat_full:
  "int (length inp) = width * height * 4 \<Longrightarrow>
   frame_mat inp width height =
     \<lparr>rows = nat height, cols = nat width, channels = 4, data = inp, continuous = True\<rparr>"
  by (simp add: frame_mat_def)

lemma applyCanny_sample_header:
  "applyCanny sample_px
     \<lparr>rows = nat 1, cols = nat 2, channels = 4, data = sample_frame, continuous = True\<rparr> 50 150 3 =
     Inr \<lparr>rows = 1, cols = 2, channels = 1, data = [255, 0], continuous = True\<rparr>"
  by code_simp

text \<open>
  Claim C4. For a \<open>width\<close> x \<open>height\<close> 4-channel input (a buffer of exactly
  \<open>width * height * 4\<close> bytes, an output buffer of at least that size),
  \<open>processFrame\<close> wraps the buffer in a matrix of \<open>height\<close> rows, \<open>width\<close>
  columns and 4 channels, runs \<open>applyCanny\<close> on it with the thresholds 50 and 150 and
  the kernel size 3, then \<open>edgeToRGBA\<close> on the edge map, and copies the result to the
  output. When it succeeds, both steps have succeeded, the RGBA matrix has \<open>height\<close>
  rows, \<open>width\<close> columns, 4 channels and exactly \<open>width * height * 4\<close> bytes,
  these bytes are the head of the output buffer, and each of the four bytes of pixel
  \<open>p\<close> is the intensity of the edge map at \<open>p\<close>.
\<close>

theorem processFrame_is_canny_then_rgba:
  assumes "0 \<le> width" and "0 \<le> height" and "int (length inp) = width * height * 4"
    and "width * height * 4 \<le> int (length out)" and "in_int_range (width * height * 4)"
  shows "processFrame px (Some inp) width height (Some out) =
           (case applyCanny px
                   \<lparr>rows = nat height, cols = nat width, channels = 4, data = inp,
                    continuous = True\<rparr> 50 150 3 of
              Inl e \<Rightarrow> Returned (False, Some out)
            | Inr edgeMat \<Rightarrow>
                (case edgeToRGBA edgeMat of
                   Inl e \<Rightarrow> Returned (False, Some out)
                 | Inr rgba \<Rightarrow>
                     Returned (True, Some (data rgba @ drop (nat (width * height * 4)) out))))
         \<and> (\<forall>out'. processFrame px (Some inp) width height (Some out) = Returned (True, Some out') \<longrightarrow>
              (\<exists>edgeMat rgba.
                 applyCanny px
                   \<lparr>rows = nat height, cols = nat width, channels = 4, data = inp,
                    continuous = True\<rparr> 50 150 3 = Inr edgeMat \<and>
                 edgeToRGBA edgeMat = Inr rgba \<and>
                 rows rgba = nat height \<and> cols rgba = nat width \<and> channels rgba = 4 \<and>
                 length (data rgba) = nat (width * height * 4) \<and>
                 out' = data rgba @ drop (nat (width * height * 4)) out \<and>
                 length (data edgeMat) = nat height * nat width \<and>
                 (\<forall>p < nat height * nat width. \<forall>c < 4. out' ! (p * 4 + c) = data edgeMat ! p)))"
proof -
  let ?m = "\<lparr>rows = nat height, cols = nat width, channels = 4, data = inp,
             continuous = True\<rparr>"
  let ?n = "nat (width * height * 4)"
  have n: "?n = nat height * nat width * 4"
    using assms(1,2) by (simp add: nat_mult_distrib mult.commute)
  have pf: "processFrame px (Some inp) width height (Some out) =
      (case applyCanny px ?m 50 150 3 of
         Inl e \<Rightarrow> Returned (False, Some out)
       | Inr edgeMat \<Rightarrow>
           (case edgeToRGBA edgeMat of
              Inl e \<Rightarrow> Returned (False, Some out)
            | Inr outputMat \<Rightarrow>
                (case (if continuous outputMat then memcpy out 0 (data outputMat) ?n
                       else copy_rows out outputMat (nat width) 0 (nat height)) of
                   None \<Rightarrow> Undefined
                 | Some out' \<Rightarrow> Returned (True, Some out'))))"
    using assms by (simp add: processFrame_def frame_mat_full Let_def split: sum.splits)
  have main: "processFrame px (Some inp) width height (Some out) =
           (case applyCanny px ?m 50 150 3 of
              Inl e \<Rightarrow> Returned (False, Some out)
            | Inr edgeMat \<Rightarrow>
                (case edgeToRGBA edgeMat of
                   Inl e \<Rightarrow> Returned (False, Some out)
                 | Inr rgba \<Rightarrow> Returned (True, Some (data rgba @ drop ?n out))))"
  proof (cases "applyCanny px ?m 50 150 3")
    case (Inl e)
    then show ?thesis by (simp add: pf)
  next
    case (Inr edgeMat)
    from applyCanny_shape [OF Inr]
    have e: "rows edgeMat = nat height" "cols edgeMat = nat width" "channels edgeMat = 1"
      "length (data edgeMat) = rows edgeMat * cols edgeMat" "\<not> mat_empty edgeMat"
      by simp_all
    from edgeToRGBA_shape [OF e(5) e(3) e(4)] obtain rgba where
      r: "edgeToRGBA edgeMat = Inr rgba" "continuous rgba"
         "length (data rgba) = rows edgeMat * cols edgeMat * 4"
      by blast
    from r(3) e(1,2) n have len: "length (data rgba) = ?n" by simp
    from assms(4) have "?n \<le> length out" by linarith
    from memcpy_prefix [OF this len] Inr r show ?thesis by (simp add: pf)
  qed
  have shape: "\<exists>edgeMat rgba.
                 applyCanny px ?m 50 150 3 = Inr edgeMat \<and> edgeToRGBA edgeMat = Inr rgba \<and>
                 rows rgba = nat height \<and> cols rgba = nat width \<and> channels rgba = 4 \<and>
                 length (data rgba) = ?n \<and> out' = data rgba @ drop ?n out \<and>
                 length (data edgeMat) = nat height * nat width \<and>
                 (\<forall>p < nat height * nat width. \<forall>c < 4. out' ! (p * 4 + c) = data edgeMat ! p)"
    if ok: "processFrame px (Some inp) width height (Some out) = Returned (True, Some out')" for out'
  proof -
    from ok main obtain edgeMat where c: "applyCanny px ?m 50 150 3 = Inr edgeMat"
      by (cases "applyCanny px ?m 50 150 3") auto
    from applyCanny_shape [OF c]
    have e: "rows edgeMat = nat height" "cols edgeMat = nat width" "channels edgeMat = 1"
      "length (data edgeMat) = rows edgeMat * cols edgeMat" "\<not> mat_empty edgeMat"
      by simp_all
    from edgeToRGBA_pixels [OF e(5) e(3) e(4)] obtain rgba where
      r: "edgeToRGBA edgeMat = Inr rgba" "rows rgba = rows edgeMat" "cols rgba = cols edgeMat"
         "channels rgba = 4" "length (data rgba) = rows edgeMat * cols edgeMat * 4"
         "\<forall>p < rows edgeMat * cols edgeMat. \<forall>c < 4. data rgba ! (p * 4 + c) = data edgeMat ! p"
      by blast
    from ok main c r(1) have o: "out' = data rgba @ drop ?n out" by simp
    have s: "rows rgba = nat height" "cols rgba = nat width" "length (data rgba) = ?n"
      "length (data edgeMat) = nat height * nat width"
      using r e n by simp_all
    have px: "out' ! (p * 4 + c) = data edgeMat ! p"
      if "p < nat height * nat width" "c < 4" for p c
    proof -
      from that have "p * 4 + c < nat height * nat width * 4" by simp
      then have "p * 4 + c < length (data rgba)" using s(3) n by simp
      then have "out' ! (p * 4 + c) = data rgba ! (p * 4 + c)"
        by (simp add: o nth_append)
      with r(6) that e(1,2) show ?thesis by simp
    qed
    from c r(1,4) s o px show ?thesis by blast
  qed
  from main shape show ?thesis by blast
qed

theorem processFrame_is_canny_then_rgba_witness:
  "(0::int) \<le> 2 \<and> (0::int) \<le> 1 \<and> int (length sample_frame) = 2 * 1 * 4 \<and>
   2 * 1 * 4 \<le> int (length sample_output) \<and> in_int_range (2 * 1 * 4) \<and>
   applyCanny sample_px
     \<lparr>rows = nat 1, cols = nat 2, channels = 4, data = sample_frame, continuous = True\<rparr> 50 150 3 =
     Inr \<lparr>rows = 1, cols = 2, channels = 1, data = [255, 0], continuous = True\<rparr> \<and>
   edgeToRGBA \<lparr>rows = 1, cols = 2, channels = 1, data = [255, 0], continuous = True\<rparr> =
     Inr \<lparr>rows = 1, cols = 2, channels = 4, data = [255, 255, 255, 255, 0, 0, 0, 0],
          continuous = True\<rparr> \<and>
   processFrame sample_px (Some sample_frame) 2 1 (Some sample_output) =
     Returned (True, Some [255, 255, 255, 255, 0, 0, 0, 0]) \<and>
   (\<exists>edgeMat rgba.
      applyCanny sample_px
        \<lparr>rows = nat 1, cols = nat 2, channels = 4, data = sample_frame, continuous = True\<rparr>
        50 150 3 = Inr edgeMat \<and>
      edgeToRGBA edgeMat = Inr rgba \<and>
      rows rgba = nat 1 \<and> cols rgba = nat 2 \<and> channels rgba = 4 \<and>
      length (data rgba) = nat (2 * 1 * 4) \<and>
      [255, 255, 255, 255, 0, 0, 0, 0] = data rgba @ drop (nat (2 * 1 * 4)) sample_output \<and>
      data edgeMat = [255, 0])"
proof -
  have h: "(0::int) \<le> 2" "(0::int) \<le> 1" "int (length sample_frame) = 2 * 1 * 4"
    "2 * 1 * 4 \<le> int (length sample_output)" "in_int_range (2 * 1 * 4)"
    by (simp_all add: sample_frame_def sample_output_def in_int_range_def)
  have d: "drop (nat (2 * 1 * 4)) sample_output = []"
    by (simp add: sample_output_def)
  note t = processFrame_is_canny_then_rgba [OF h, of sample_px]
  from t have p: "processFrame sample_px (Some sample_frame) 2 1 (Some sample_output) =
     Returned (True, Some [255, 255, 255, 255, 0, 0, 0, 0])"
    unfolding applyCanny_sample_header sum.case edgeToRGBA_sample d by simp
  from t p obtain edgeMat rgba where
    b: "applyCanny sample_px
        \<lparr>rows = nat 1, cols = nat 2, channels = 4, data = sample_frame, continuous = True\<rparr>
        50 150 3 = Inr edgeMat"
      "edgeToRGBA edgeMat = Inr rgba"
      "rows rgba = nat 1" "cols rgba = nat 2" "channels rgba = 4"
      "length (data rgba) = nat (2 * 1 * 4)"
      "[255, 255, 255, 255, 0, 0, 0, 0] = data rgba @ drop (nat (2 * 1 * 4)) sample_output"
    by blast
  from b(1) have "data edgeMat = [255, 0]"
    unfolding applyCanny_sample_header by auto
  with b have "\<exists>edgeMat rgba.
      applyCanny sample_px
        \<lparr>rows = nat 1, cols = nat 2, channels = 4, data = sample_frame, continuous = True\<rparr>
        50 150 3 = Inr edgeMat \<and>
      edgeToRGBA edgeMat = Inr rgba \<and>
      rows rgba = nat 1 \<and> cols rgba = nat 2 \<and> channels rgba = 4 \<and>
      length (data rgba) = nat (2 * 1 * 4) \<and>
      [255, 255, 255, 255, 0, 0, 0, 0] = data rgba @ drop (nat (2 * 1 * 4)) sample_output \<and>
      data edgeMat = [255, 0]"
    by blast
  with h p applyCanny_sample_header edgeToRGBA_sample show ?thesis by blast
qed

text \<open>
  Claim C6. Whenever \<open>processFrame\<close> returns \<^verbatim>\<open>false\<close> (a null pointer,
  a failure of the edge detection, a failure of the expansion), the output buffer is
  what it was before the call: the buffer is written only after both stages have
  succeeded.
\<close>

theorem processFrame_failure_keeps_output:
  "processFrame px inputData width height outputData = Returned (False, out') \<Longrightarrow>
     out' = outputData"
  by (auto simp: processFrame_def Let_def split: option.splits if_splits sum.splits)

theorem processFrame_failure_keeps_output_witness:
  "processFrame sample_px None 2 1 (Some sample_output) = Returned (False, Some sample_output) \<and>
   processFrame sample_px (Some []) 0 0 (Some sample_output) = Returned (False, Some sample_output)"
proof -
  have 1: "processFrame sample_px None 2 1 (Some sample_output) =
      Returned (False, Some sample_output)"
    by (simp add: processFrame_def)
  have "\<exists>out'. processFrame sample_px (Some []) 0 0 (Some sample_output) = Returned (False, out')"
    by (simp add: processFrame_def frame_mat_def applyCanny_def mat_empty_def)
  then obtain out' where
    2: "processFrame sample_px (Some []) 0 0 (Some sample_output) = Returned (False, out')"
    by blast
  from processFrame_failure_keeps_output [OF 2] 1 2 show ?thesis by simp
qed

subsection \<open>Input validation of the two detectors\<close>



lemma saturate_samples:
  "saturate_cast_uchar sample_px 600 = 255" "saturate_cast_uchar sample_px 0 = 0"
  by code_simp+








lemma GaussianBlur_even_fails:
  assumes "0 < k" "even k" "\<not> (rows g = 1 \<and> cols g = 1)"
  shows "GaussianBlur px g (k, k) s = Inl (CvException ''GaussianBlur'')"
proof -
  from assms(1,2) have k: "k \<noteq> 1" "\<not> k \<le> 0" "k mod 2 \<noteq> 1" by presburger+
  with assms(3) show ?thesis
    by (simp add: GaussianBlur_def Let_def)
qed

lemma GaussianBlur_odd_succeeds:
  assumes "0 < k" "odd k"
  shows "\<exists>b. GaussianBlur px g (k, k) s = Inr b"
proof -
  from assms have k: "\<not> k \<le> 0" "k mod 2 = 1" by presburger+
  then show ?thesis using assms(1)
    by (simp add: GaussianBlur_def Let_def)
qed





subsection \<open>The Sobel magnitude in 8 bits\<close>

lemma blur_step_row:
  "GaussianBlur sample_px (clone step_row) (3, 3) 0 = Inr blurred_step_row"
  by code_simp

lemma sobel_x_step_row:
  "Sobel sample_px blurred_step_row 1 0 3 =
     Inr \<lparr>rows = 1, cols = 4, channels = 1, data = [0, 600, 600, 0], continuous = True\<rparr>"
  by code_simp

lemma sobel_y_step_row:
  "Sobel sample_px blurred_step_row 0 1 3 =
     Inr \<lparr>rows = 1, cols = 4, channels = 1, data = [0, 0, 0, 0], continuous = True\<rparr>"
  by code_simp

lemma magnitude_step_row:
  "magnitude \<lparr>rows = 1, cols = 4, channels = 1, data = [0, 600, 600, 0], continuous = True\<rparr>
             \<lparr>rows = 1, cols = 4, channels = 1, data = [0, 0, 0, 0], continuous = True\<rparr> =
     Inr \<lparr>rows = 1, cols = 4, channels = 1, data = [0, 600, 600, 0], continuous = True\<rparr>"
  by (simp add: magnitude_def)

lemma applySobel_step_row:
  "applySobel sample_px step_row 3 =
     Inr \<lparr>rows = 1, cols = 4, channels = 1, data = [0, 255, 255, 0], continuous = True\<rparr>"
proof -
  have c: "channels step_row = 1" "\<not> mat_empty step_row"
    by (simp_all add: step_row_def mat_empty_def)
  then show ?thesis
    by (simp add: applySobel_def blur_step_row sobel_x_step_row sobel_y_step_row
        magnitude_step_row convertTo_8U_def saturate_samples del: One_nat_def)
qed

lemma cvRound_lower: "255 < v \<Longrightarrow> v \<le> 2147483647 \<Longrightarrow> 255 \<le> cvRound px v"
proof -
  assume a: "255 < v" "v \<le> 2147483647"
  let ?f = "\<lfloor>v\<rfloor>"
  have f: "255 \<le> ?f" "?f \<le> 2147483647" using a by linarith+
  have "of_int ?f \<le> v" by simp
  have fr: "v - of_int ?f = 1 / 2 \<Longrightarrow> ?f + 1 \<le> 2147483647"
    using a(2) by linarith
  have fr2: "1 / 2 < v - of_int ?f \<Longrightarrow> ?f + 1 \<le> 2147483647"
    using a(2) by linarith
  show ?thesis
    unfolding cvRound_def Let_def using f fr fr2
    by (auto simp: not_less)
qed

lemma saturate_above_255:
  "255 < v \<Longrightarrow> v \<le> 2147483647 \<Longrightarrow> saturate_cast_uchar px v = 255"
  using cvRound_lower [of v px]
  by (auto simp: saturate_cast_uchar_def Let_def)

lemma cvRound_near:
  assumes "0 \<le> v" and "v \<le> 255"
  shows "0 \<le> cvRound px v \<and> cvRound px v \<le> 255 \<and> \<bar>of_int (cvRound px v) - v\<bar> \<le> 1 / 2"
proof -
  let ?f = "\<lfloor>v\<rfloor>"
  define r where "r = (if v - of_int ?f < 1 / 2 then ?f
               else if 1 / 2 < v - of_int ?f then ?f + 1
               else if even ?f then ?f else ?f + 1)"
  have f: "0 \<le> ?f" "?f \<le> 255" "of_int ?f \<le> v" "v < of_int ?f + 1"
    using assms by linarith+
  have up: "?f + 1 \<le> 255" if "1 / 2 \<le> v - of_int ?f"
    using that assms(2) by linarith
  have r: "0 \<le> r" "r \<le> 255" "\<bar>of_int r - v\<bar> \<le> 1 / 2"
    using f up by (auto simp: r_def not_less abs_le_iff)
  have "cvRound px v =
      (if - 2147483648 \<le> r \<and> r \<le> 2147483647 then r else cvRound_out_of_range px v)"
    by (simp only: cvRound_def Let_def r_def)
  with r have "cvRound px v = r" by simp
  with r show ?thesis by simp
qed

lemma saturate_near:
  assumes "0 \<le> v" and "v \<le> 255"
  shows "\<bar>of_int (uint (saturate_cast_uchar px v)) - v\<bar> \<le> 1 / 2"
proof -
  from cvRound_near [OF assms, of px]
  have r: "0 \<le> cvRound px v" "cvRound px v \<le> 255" "\<bar>of_int (cvRound px v) - v\<bar> \<le> 1 / 2"
    by simp_all
  then have "saturate_cast_uchar px v = word_of_int (cvRound px v)"
    by (simp add: saturate_cast_uchar_def Let_def)
  moreover from r have "uint (word_of_int (cvRound px v) :: u8) = cvRound px v"
    by (simp add: uint_word_of_int take_bit_eq_mod)
  ultimately show ?thesis using r(3) by simp
qed

text \<open>
  Claim C1, as amended. When \<open>applySobel\<close> succeeds on \<open>m\<close>, the gray conversion of
  \<open>m\<close>, its 3x3 Gaussian blur (sigma 0) and the two Sobel derivatives \<open>gx\<close> and
  \<open>gy\<close> of the blurred image all succeed, and every element of the result is
  \<^verbatim>\<open>saturate_cast<uchar>\<close> of the magnitude \<open>sqrt (gx\<^sup>2 + gy\<^sup>2)\<close> at that
  element: where the magnitude exceeds 255 (and lies in the range of \<^verbatim>\<open>int\<close>) the
  element is 255, and where it is at most 255 the element is within one half of it.
  \<^verbatim>\<open>convertTo\<close> rounds and saturates, it does not truncate modulo 256.
\<close>

theorem applySobel_saturates:
  assumes "applySobel px m k = Inr out"
  shows "\<exists>gray blurred sx sy.
           (if channels m = 4 then cvtColor px COLOR_RGBA2GRAY m
            else if channels m = 3 then cvtColor px COLOR_BGR2GRAY m
            else Inr (clone m)) = Inr gray \<and>
           GaussianBlur px gray (3, 3) 0 = Inr blurred \<and>
           Sobel px blurred 1 0 k = Inr sx \<and> Sobel px blurred 0 1 k = Inr sy \<and>
           length (data sx) = length (data out) \<and> length (data sy) = length (data out) \<and>
           (\<forall>i < length (data out).
              data out ! i = saturate_cast_uchar px (sqrt ((data sx ! i)\<^sup>2 + (data sy ! i)\<^sup>2)) \<and>
              (255 < sqrt ((data sx ! i)\<^sup>2 + (data sy ! i)\<^sup>2) \<and>
               sqrt ((data sx ! i)\<^sup>2 + (data sy ! i)\<^sup>2) \<le> 2147483647 \<longrightarrow>
                 data out ! i = 255) \<and>
              (sqrt ((data sx ! i)\<^sup>2 + (data sy ! i)\<^sup>2) \<le> 255 \<longrightarrow>
                 \<bar>of_int (uint (data out ! i)) - sqrt ((data sx ! i)\<^sup>2 + (data sy ! i)\<^sup>2)\<bar>
                   \<le> 1 / 2))"
proof -
  from assms have ne: "\<not> mat_empty m"
    by (cases "mat_empty m") (simp_all add: applySobel_def)
  from assms ne obtain gray blurred sx sy mag where
    g: "(if channels m = 4 then cvtColor px COLOR_RGBA2GRAY m
         else if channels m = 3 then cvtColor px COLOR_BGR2GRAY m
         else Inr (clone m)) = Inr gray"
    and b: "GaussianBlur px gray (3, 3) 0 = Inr blurred"
    and sx: "Sobel px blurred 1 0 k = Inr sx" and sy: "Sobel px blurred 0 1 k = Inr sy"
    and mag: "magnitude sx sy = Inr mag" and out: "out = convertTo_8U px mag"
    unfolding applySobel_def by (simp split: sum.splits del: One_nat_def)
  from sx sy have len: "length (data sx) = length (data blurred)"
      "length (data sy) = length (data blurred)"
    by (auto simp: Sobel_def split: if_splits)
  from mag have md: "data mag = map2 (\<lambda>a b. sqrt (a\<^sup>2 + b\<^sup>2)) (data sx) (data sy)"
    by (auto simp: magnitude_def split: if_splits)
  have od: "data out = map (saturate_cast_uchar px) (data mag)"
    by (simp add: out convertTo_8U_def)
  have l: "length (data sx) = length (data out)" "length (data sy) = length (data out)"
    by (simp_all add: od md len)
  have px: "data out ! i = saturate_cast_uchar px (sqrt ((data sx ! i)\<^sup>2 + (data sy ! i)\<^sup>2))"
    if "i < length (data out)" for i
  proof -
    from that have "i < length (data blurred)" by (simp add: od md len)
    then show ?thesis by (simp add: od md len)
  qed
  have sat: "data out ! i = 255"
    if "i < length (data out)" "255 < sqrt ((data sx ! i)\<^sup>2 + (data sy ! i)\<^sup>2)"
      "sqrt ((data sx ! i)\<^sup>2 + (data sy ! i)\<^sup>2) \<le> 2147483647" for i
    unfolding px [OF that(1)] using that(2,3) by (rule saturate_above_255)
  have near: "\<bar>of_int (uint (data out ! i)) - sqrt ((data sx ! i)\<^sup>2 + (data sy ! i)\<^sup>2)\<bar> \<le> 1 / 2"
    if "i < length (data out)" "sqrt ((data sx ! i)\<^sup>2 + (data sy ! i)\<^sup>2) \<le> 255" for i
    unfolding px [OF that(1)] using that(2) by (intro saturate_near) simp_all
  from g b sx sy l px sat near show ?thesis by blast
qed

theorem applySobel_saturates_witness:
  "applySobel sample_px step_row 3 =
     Inr \<lparr>rows = 1, cols = 4, channels = 1, data = [0, 255, 255, 0], continuous = True\<rparr> \<and>
   (\<exists>gray blurred sx sy.
      (if channels step_row = 4 then cvtColor sample_px COLOR_RGBA2GRAY step_row
       else if channels step_row = 3 then cvtColor sample_px COLOR_BGR2GRAY step_row
       else Inr (clone step_row)) = Inr gray \<and>
      GaussianBlur sample_px gray (3, 3) 0 = Inr blurred \<and>
      Sobel sample_px blurred 1 0 3 = Inr sx \<and> Sobel sample_px blurred 0 1 3 = Inr sy \<and>
      data blurred = [0, 50, 150, 200] \<and>
      data sx = [0, 600, 600, 0] \<and> data sy = [0, 0, 0, 0] \<and>
      sqrt ((data sx ! 1)\<^sup>2 + (data sy ! 1)\<^sup>2) = 600 \<and>
      255 < sqrt ((data sx ! 1)\<^sup>2 + (data sy ! 1)\<^sup>2) \<and>
      sqrt ((data sx ! 1)\<^sup>2 + (data sy ! 1)\<^sup>2) \<le> 2147483647 \<and>
      [0, 255, 255, 0 :: u8] ! 1 = 255 \<and>
      sqrt ((data sx ! 0)\<^sup>2 + (data sy ! 0)\<^sup>2) \<le> 255 \<and>
      \<bar>of_int (uint ([0, 255, 255, 0 :: u8] ! 0)) - sqrt ((data sx ! 0)\<^sup>2 + (data sy ! 0)\<^sup>2)\<bar>
        \<le> 1 / 2)"
proof -
  let ?out = "\<lparr>rows = 1, cols = 4, channels = 1, data = [0, 255, 255, 0 :: u8],
               continuous = True\<rparr>"
  from applySobel_saturates [OF applySobel_step_row]
  obtain gray blurred sx sy where
    g: "(if channels step_row = 4 then cvtColor sample_px COLOR_RGBA2GRAY step_row
         else if channels step_row = 3 then cvtColor sample_px COLOR_BGR2GRAY step_row
         else Inr (clone step_row)) = Inr gray"
    and b: "GaussianBlur sample_px gray (3, 3) 0 = Inr blurred"
    and x: "Sobel sample_px blurred 1 0 3 = Inr sx" and y: "Sobel sample_px blurred 0 1 3 = Inr sy"
    and a: "\<forall>i < length (data ?out).
      data ?out ! i = saturate_cast_uchar sample_px (sqrt ((data sx ! i)\<^sup>2 + (data sy ! i)\<^sup>2)) \<and>
      (255 < sqrt ((data sx ! i)\<^sup>2 + (data sy ! i)\<^sup>2) \<and>
       sqrt ((data sx ! i)\<^sup>2 + (data sy ! i)\<^sup>2) \<le> 2147483647 \<longrightarrow> data ?out ! i = 255) \<and>
      (sqrt ((data sx ! i)\<^sup>2 + (data sy ! i)\<^sup>2) \<le> 255 \<longrightarrow>
         \<bar>of_int (uint (data ?out ! i)) - sqrt ((data sx ! i)\<^sup>2 + (data sy ! i)\<^sup>2)\<bar> \<le> 1 / 2)"
    by blast
  from g have gray: "gray = clone step_row" by (simp add: step_row_def)
  from b have blurred: "blurred = blurred_step_row" by (simp add: gray blur_step_row)
  from x have sx: "data sx = [0, 600, 600, 0]"
    unfolding blurred sobel_x_step_row by auto
  from y have sy: "data sy = [0, 0, 0, 0]"
    unfolding blurred sobel_y_step_row by auto
  have m1: "sqrt ((data sx ! 1)\<^sup>2 + (data sy ! 1)\<^sup>2) = 600"
    and m0: "sqrt ((data sx ! 0)\<^sup>2 + (data sy ! 0)\<^sup>2) \<le> 255"
    by (simp_all add: sx sy)
  have i: "(1::nat) < length (data ?out)" "(0::nat) < length (data ?out)" by simp_all
  from a i(1) have "255 < sqrt ((data sx ! 1)\<^sup>2 + (data sy ! 1)\<^sup>2) \<and>
       sqrt ((data sx ! 1)\<^sup>2 + (data sy ! 1)\<^sup>2) \<le> 2147483647 \<longrightarrow> data ?out ! 1 = 255"
    by blast
  with m1 have o1: "[0, 255, 255, 0 :: u8] ! 1 = 255" by simp
  from a i(2) have "sqrt ((data sx ! 0)\<^sup>2 + (data sy ! 0)\<^sup>2) \<le> 255 \<longrightarrow>
         \<bar>of_int (uint (data ?out ! 0)) - sqrt ((data sx ! 0)\<^sup>2 + (data sy ! 0)\<^sup>2)\<bar> \<le> 1 / 2"
    by blast
  with m0 have o0: "\<bar>of_int (uint ([0, 255, 255, 0 :: u8] ! 0))
      - sqrt ((data sx ! 0)\<^sup>2 + (data sy ! 0)\<^sup>2)\<bar> \<le> 1 / 2" by simp
  have bd: "data blurred = [0, 50, 150, 200]" by (simp add: blurred blurred_step_row_def)
  have m1': "255 < sqrt ((data sx ! 1)\<^sup>2 + (data sy ! 1)\<^sup>2)"
    "sqrt ((data sx ! 1)\<^sup>2 + (data sy ! 1)\<^sup>2) \<le> 2147483647"
    unfolding m1 by simp_all
  from g b x y bd sx sy m1 m1' o1 m0 o0 applySobel_step_row show ?thesis by blast
qed

text \<open>
  The claim as stated fails. The one-row image \<open>0 0 200 200\<close> is blurred to
  \<open>0 50 150 200\<close>; at the two middle pixels the derivatives are \<open>gx = 600\<close>
  and \<open>gy = 0\<close>, the magnitude is 600, the claim's value is
  \<open>600 mod 256 = 88\<close>, and \<open>applySobel\<close> gives 255.
\<close>

theorem sobel_magnitude_600_not_truncated:
  "applySobel sample_px step_row 3 =
     Inr \<lparr>rows = 1, cols = 4, channels = 1, data = [0, 255, 255, 0], continuous = True\<rparr> \<and>
   GaussianBlur sample_px (clone step_row) (3, 3) 0 = Inr blurred_step_row \<and>
   Sobel sample_px blurred_step_row 1 0 3 =
     Inr \<lparr>rows = 1, cols = 4, channels = 1, data = [0, 600, 600, 0], continuous = True\<rparr> \<and>
   Sobel sample_px blurred_step_row 0 1 3 =
     Inr \<lparr>rows = 1, cols = 4, channels = 1, data = [0, 0, 0, 0], continuous = True\<rparr> \<and>
   sqrt (600\<^sup>2 + 0\<^sup>2) = 600 \<and>
   spec_truncated_magnitude 600 0 = 88 \<and> (88 :: u8) \<noteq> 255"
proof -
  have "spec_truncated_magnitude 600 0 = 88"
    by (simp add: spec_truncated_magnitude_def)
  then show ?thesis
    using applySobel_step_row blur_step_row sobel_x_step_row sobel_y_step_row by simp
qed

subsection \<open>The kernel size of the Canny path\<close>

lemma auto_ksize_canny: "auto_ksize px (14 / 10) = 9" "auto_ksize px (7 / 5) = 9"
  by (simp_all add: auto_ksize_def cvRound_def Let_def)

lemma gray_succeeds:
  "\<exists>g. (if channels m = 4 then cvtColor px COLOR_RGBA2GRAY m
        else if channels m = 3 then cvtColor px COLOR_BGR2GRAY m
        else Inr (clone m)) = Inr g \<and> rows g = rows m \<and> cols g = cols m"
  by (simp add: cvtColor_def clone_def)

lemma GaussianBlur_nonpositive_succeeds:
  assumes "k \<le> 0"
  shows "\<exists>b. GaussianBlur px g (k, k) (14 / 10) = Inr b"
  using assms by (simp add: GaussianBlur_def Let_def auto_ksize_canny)

lemma applyCanny_kernel_0:
  "applyCanny sample_px four_channel_mat 50 150 0 =
     Inr \<lparr>rows = 2, cols = 2, channels = 1, data = [255, 0, 255, 0], continuous = True\<rparr>"
  by code_simp

lemma applyCanny_kernel_minus_1:
  "applyCanny sample_px four_channel_mat 50 150 (- 1) =
     Inr \<lparr>rows = 2, cols = 2, channels = 1, data = [255, 0, 255, 0], continuous = True\<rparr>"
  by code_simp

text \<open>
  Claim C3, as amended. \<open>applyCanny\<close> does not check the kernel size itself; what
  happens is decided by \<^verbatim>\<open>GaussianBlur\<close>. On a non-empty input: a positive even
  kernel size makes the call fail, with the exception of \<^verbatim>\<open>GaussianBlur\<close> caught
  before any output is produced, unless the input is a single pixel; an odd kernel
  size of at least 1 does not fail; a non-positive kernel size does not fail either
  (with the sigma 1.4 it is replaced by the size 9 computed from sigma).
\<close>

theorem applyCanny_kernel_size:
  assumes "\<not> mat_empty m"
  shows "(0 < k \<and> even k \<and> \<not> (rows m = 1 \<and> cols m = 1) \<longrightarrow>
            applyCanny px m lo hi k = Inl (CvException ''GaussianBlur'')) \<and>
         (0 < k \<and> odd k \<longrightarrow> (\<exists>e. applyCanny px m lo hi k = Inr e)) \<and>
         (k \<le> 0 \<longrightarrow> (\<exists>e. applyCanny px m lo hi k = Inr e))"
proof -
  from gray_succeeds [of m px] obtain g where
    g: "(if channels m = 4 then cvtColor px COLOR_RGBA2GRAY m
         else if channels m = 3 then cvtColor px COLOR_BGR2GRAY m
         else Inr (clone m)) = Inr g" and s: "rows g = rows m" "cols g = cols m"
    by blast
  have ac: "applyCanny px m lo hi k =
      (case GaussianBlur px g (k, k) (14 / 10) of
         Inl e \<Rightarrow> Inl e | Inr b \<Rightarrow> Canny px b lo hi 3 False)"
    using assms unfolding applyCanny_def g by simp
  have canny: "\<exists>e. Canny px b lo hi 3 False = Inr e" for b
    by (simp add: Canny_def)
  have bad: "applyCanny px m lo hi k = Inl (CvException ''GaussianBlur'')"
    if "0 < k" "even k" "\<not> (rows m = 1 \<and> cols m = 1)"
  proof -
    from that(3) have "\<not> (rows g = 1 \<and> cols g = 1)" by (simp add: s)
    from GaussianBlur_even_fails [OF that(1,2) this]
    show ?thesis unfolding ac by simp
  qed
  have good1: "\<exists>e. applyCanny px m lo hi k = Inr e" if "0 < k" "odd k"
  proof -
    from GaussianBlur_odd_succeeds [OF that] obtain b where
      "GaussianBlur px g (k, k) (14 / 10) = Inr b" by blast
    with canny [of b] show ?thesis unfolding ac by simp
  qed
  have good2: "\<exists>e. applyCanny px m lo hi k = Inr e" if "k \<le> 0"
  proof -
    from GaussianBlur_nonpositive_succeeds [OF that] obtain b where
      "GaussianBlur px g (k, k) (14 / 10) = Inr b" by blast
    with canny [of b] show ?thesis unfolding ac by simp
  qed
  from bad good1 good2 show ?thesis by blast
qed

theorem applyCanny_kernel_size_witness:
  "\<not> mat_empty four_channel_mat \<and> (0::int) < 2 \<and> even (2::int) \<and>
   \<not> (rows four_channel_mat = 1 \<and> cols four_channel_mat = 1) \<and>
   applyCanny sample_px four_channel_mat 50 150 2 = Inl (CvException ''GaussianBlur'') \<and>
   (0::int) < 3 \<and> odd (3::int) \<and> (\<exists>e. applyCanny sample_px four_channel_mat 50 150 3 = Inr e) \<and>
   (0::int) \<le> 0 \<and> (\<exists>e. applyCanny sample_px four_channel_mat 50 150 0 = Inr e)"
proof -
  have ne: "\<not> mat_empty four_channel_mat"
    and d: "\<not> (rows four_channel_mat = 1 \<and> cols four_channel_mat = 1)"
    by (simp_all add: mat_empty_def four_channel_mat_def)
  from applyCanny_kernel_size [OF ne, of 2 sample_px 50 150] d
  have 1: "applyCanny sample_px four_channel_mat 50 150 2 = Inl (CvException ''GaussianBlur'')"
    by simp
  from applyCanny_kernel_size [OF ne, of 3 sample_px 50 150]
  have 2: "\<exists>e. applyCanny sample_px four_channel_mat 50 150 3 = Inr e" by simp
  from applyCanny_kernel_size [OF ne, of 0 sample_px 50 150]
  have 3: "\<exists>e. applyCanny sample_px four_channel_mat 50 150 0 = Inr e" by simp
  from ne d 1 2 3 show ?thesis by simp
qed

text \<open>
  The claim as stated fails: the kernel sizes 0 and -1 are accepted.
\<close>

theorem nonpositive_kernel_size_accepted:
  "\<not> mat_empty four_channel_mat \<and>
   applyCanny sample_px four_channel_mat 50 150 0 =
     Inr \<lparr>rows = 2, cols = 2, channels = 1, data = [255, 0, 255, 0], continuous = True\<rparr> \<and>
   applyCanny sample_px four_channel_mat 50 150 (- 1) =
     Inr \<lparr>rows = 2, cols = 2, channels = 1, data = [255, 0, 255, 0], continuous = True\<rparr>"
  using applyCanny_kernel_0 applyCanny_kernel_minus_1
  by (simp add: mat_empty_def four_channel_mat_def)

subsection \<open>The GPU presenter\<close>

lemma gl_fields [simp]:
  "gl_calls (gl c st) = gl_calls st @ [c]" "shaders (gl c st) = shaders st"
  "programs (gl c st) = programs st" "loge (gl c st) = loge st"
  "VBO (gl c st) = VBO st" "EBO (gl c st) = EBO st" "VAO (gl c st) = VAO st"
  by (simp_all add: gl_def)

lemma LOGE_fields [simp]:
  "gl_calls (LOGE msg st) = gl_calls st" "shaders (LOGE msg st) = shaders st"
  "programs (LOGE msg st) = programs st" "loge (LOGE msg st) = loge st @ [msg]"
  "VBO (LOGE msg st) = VBO st" "EBO (LOGE msg st) = EBO st" "VAO (LOGE msg st) = VAO st"
  by (simp_all add: LOGE_def)

lemma checkGLError_fields [simp]:
  "gl_calls (checkGLError drv operation st) = gl_calls st @ [GlGetError]"
  "shaders (checkGLError drv operation st) = shaders st"
  "programs (checkGLError drv operation st) = programs st"
  by (simp_all add: checkGLError_def Let_def)

lemma glDeleteShader_fields [simp]:
  "gl_calls (glDeleteShader s st) = gl_calls st @ [GlDeleteShader s]"
  "shaders (glDeleteShader s st) = (if s = 0 then shaders st else remove1 s (shaders st))"
  "programs (glDeleteShader s st) = programs st"
  by (simp_all add: glDeleteShader_def Let_def)

lemma glDeleteProgram_fields [simp]:
  "gl_calls (glDeleteProgram p st) = gl_calls st @ [GlDeleteProgram p]"
  "shaders (glDeleteProgram p st) = shaders st"
  "programs (glDeleteProgram p st) = (if p = 0 then programs st else remove1 p (programs st))"
  by (simp_all add: glDeleteProgram_def Let_def)

lemma renderTexture_calls:
  assumes "programId sp \<noteq> 0" and "textureId ti \<noteq> 0"
  shows "gl_calls (renderTexture drv sp ti st) =
           gl_calls st @
           [GlClear_COLOR_BUFFER_BIT, GlUseProgram (programId sp), GlActiveTexture_TEXTURE0,
            GlBindTexture_2D (textureId ti), GlUniform1i (textureUniform sp) 0,
            GlBindBuffer GL_ARRAY_BUFFER (VBO st),
            GlVertexAttribPointer_FLOAT (positionAttrib sp) 2 16 0,
            GlEnableVertexAttribArray (positionAttrib sp),
            GlVertexAttribPointer_FLOAT (texCoordAttrib sp) 2 16 8,
            GlEnableVertexAttribArray (texCoordAttrib sp),
            GlBindBuffer GL_ELEMENT_ARRAY_BUFFER (EBO st),
            GlDrawElements_TRIANGLES_UNSIGNED_INT 6 0,
            GlDisableVertexAttribArray (positionAttrib sp),
            GlDisableVertexAttribArray (texCoordAttrib sp),
            GlGetError]"
  using assms by (simp add: renderTexture_def Let_def)

text \<open>
  Claim C7. \<open>renderTexture\<close> (the spec's draw) with a zero program handle or a zero
  texture handle issues no GL command and changes nothing but the log, to which it adds
  the diagnostic line; with both handles non-zero it clears, binds the program, the
  texture and the buffers, sets the two attributes, and draws the 6 indices of the
  quad.
\<close>

theorem renderTexture_defensive:
  "(programId sp = 0 \<or> textureId ti = 0 \<longrightarrow>
      renderTexture drv sp ti st = st\<lparr>loge := loge st @ [''Invalid shader program or texture'']\<rparr> \<and>
      gl_calls (renderTexture drv sp ti st) = gl_calls st) \<and>
   (programId sp \<noteq> 0 \<and> textureId ti \<noteq> 0 \<longrightarrow>
      gl_calls (renderTexture drv sp ti st) =
        gl_calls st @
        [GlClear_COLOR_BUFFER_BIT, GlUseProgram (programId sp), GlActiveTexture_TEXTURE0,
         GlBindTexture_2D (textureId ti), GlUniform1i (textureUniform sp) 0,
         GlBindBuffer GL_ARRAY_BUFFER (VBO st),
         GlVertexAttribPointer_FLOAT (positionAttrib sp) 2 16 0,
         GlEnableVertexAttribArray (positionAttrib sp),
         GlVertexAttribPointer_FLOAT (texCoordAttrib sp) 2 16 8,
         GlEnableVertexAttribArray (texCoordAttrib sp),
         GlBindBuffer GL_ELEMENT_ARRAY_BUFFER (EBO st),
         GlDrawElements_TRIANGLES_UNSIGNED_INT 6 0,
         GlDisableVertexAttribArray (positionAttrib sp),
         GlDisableVertexAttribArray (texCoordAttrib sp),
         GlGetError])"
proof (intro conjI impI)
  assume z: "programId sp = 0 \<or> textureId ti = 0"
  then show "renderTexture drv sp ti st =
      st\<lparr>loge := loge st @ [''Invalid shader program or texture'']\<rparr>"
    by (simp add: renderTexture_def LOGE_def)
  from z show "gl_calls (renderTexture drv sp ti st) = gl_calls st"
    by (simp add: renderTexture_def)
next
  assume "programId sp \<noteq> 0 \<and> textureId ti \<noteq> 0"
  then show "gl_calls (renderTexture drv sp ti st) =
        gl_calls st @
        [GlClear_COLOR_BUFFER_BIT, GlUseProgram (programId sp), GlActiveTexture_TEXTURE0,
         GlBindTexture_2D (textureId ti), GlUniform1i (textureUniform sp) 0,
         GlBindBuffer GL_ARRAY_BUFFER (VBO st),
         GlVertexAttribPointer_FLOAT (positionAttrib sp) 2 16 0,
         GlEnableVertexAttribArray (positionAttrib sp),
         GlVertexAttribPointer_FLOAT (texCoordAttrib sp) 2 16 8,
         GlEnableVertexAttribArray (texCoordAttrib sp),
         GlBindBuffer GL_ELEMENT_ARRAY_BUFFER (EBO st),
         GlDrawElements_TRIANGLES_UNSIGNED_INT 6 0,
         GlDisableVertexAttribArray (positionAttrib sp),
         GlDisableVertexAttribArray (texCoordAttrib sp),
         GlGetError]"
    by (simp add: renderTexture_calls)
qed

theorem renderTexture_defensive_witness:
  "textureId (sample_texture\<lparr>textureId := 0\<rparr>) = 0 \<and>
   renderTexture sample_driver sample_program (sample_texture\<lparr>textureId := 0\<rparr>) initial_renderer =
     initial_renderer\<lparr>loge := [''Invalid shader program or texture'']\<rparr> \<and>
   gl_calls (renderTexture sample_driver sample_program (sample_texture\<lparr>textureId := 0\<rparr>)
     initial_renderer) = [] \<and>
   programId sample_program \<noteq> 0 \<and> textureId sample_texture \<noteq> 0 \<and>
   gl_calls (renderTexture sample_driver sample_program sample_texture initial_renderer) =
     [GlClear_COLOR_BUFFER_BIT, GlUseProgram 5, GlActiveTexture_TEXTURE0, GlBindTexture_2D 7,
      GlUniform1i 0 0, GlBindBuffer GL_ARRAY_BUFFER 2, GlVertexAttribPointer_FLOAT 0 2 16 0,
      GlEnableVertexAttribArray 0, GlVertexAttribPointer_FLOAT 1 2 16 8,
      GlEnableVertexAttribArray 1, GlBindBuffer GL_ELEMENT_ARRAY_BUFFER 3,
      GlDrawElements_TRIANGLES_UNSIGNED_INT 6 0, GlDisableVertexAttribArray 0,
      GlDisableVertexAttribArray 1, GlGetError]"
  using renderTexture_defensive [of sample_program "sample_texture\<lparr>textureId := 0\<rparr>"
      sample_driver initial_renderer]
    renderTexture_defensive [of sample_program sample_texture sample_driver initial_renderer]
  by (simp add: sample_program_def sample_texture_def initial_renderer_def)

lemma glCreateShader_fields:
  "glCreateShader drv ty st = (s, st1) \<Longrightarrow>
     gl_calls st1 = gl_calls st @ [GlCreateShader ty] \<and>
     shaders st1 = (if s = 0 then shaders st else s # shaders st) \<and>
     programs st1 = programs st"
  by (auto simp: glCreateShader_def Let_def)

lemma glCreateProgram_fields:
  "glCreateProgram drv st = (p, st1) \<Longrightarrow>
     gl_calls st1 = gl_calls st @ [GlCreateProgram] \<and>
     programs st1 = (if p = 0 then programs st else p # programs st) \<and>
     shaders st1 = shaders st"
  by (auto simp: glCreateProgram_def Let_def)

lemma compileShader_objects:
  assumes "compileShader drv ty source st = (s, st1)"
  shows "shaders st1 = (if s = 0 then shaders st else s # shaders st) \<and>
         programs st1 = programs st \<and>
         (\<forall>ty'. ty' \<noteq> ty \<longrightarrow> GlCreateShader ty' \<in> set (gl_calls st1) \<longrightarrow>
            GlCreateShader ty' \<in> set (gl_calls st))"
proof -
  obtain c stc where c: "glCreateShader drv ty st = (c, stc)"
    by (cases "glCreateShader drv ty st")
  note f = glCreateShader_fields [OF c]
  show ?thesis
  proof (cases "c = 0")
    case True
    with assms c f show ?thesis by (auto simp: compileShader_def)
  next
    case False
    with assms c f show ?thesis
      by (auto simp: compileShader_def Let_def split: if_splits)
  qed
qed

text \<open>
  Claim C8. \<open>createShaderProgram\<close> (the spec's compileAndLink): when the vertex
  stage does not compile, the program handle is 0, nothing is done after the vertex
  stage (no fragment shader is created) and no shader or program object is left; when
  the fragment stage does not compile, the handle is 0 and the compiled vertex shader
  is deleted; when linking fails, the program object is deleted, the handle is 0, and
  both shaders are deleted.
\<close>

theorem createShaderProgram_failures_release:
  assumes v: "compileShader drv GL_VERTEX_SHADER vsrc st = (v, st1)"
    and f: "compileShader drv GL_FRAGMENT_SHADER fsrc st1 = (f, st2)"
    and p: "glCreateProgram drv st2 = (pid, st3)"
    and l: "st4 = gl (GlLinkProgram pid) (gl (GlAttachShader pid f) (gl (GlAttachShader pid v) st3))"
    and r: "createShaderProgram drv vsrc fsrc st = (prog, st')"
  shows "(v = 0 \<longrightarrow>
            programId prog = 0 \<and> gl_calls st' = gl_calls st1 \<and>
            (GlCreateShader GL_FRAGMENT_SHADER \<in> set (gl_calls st') \<longrightarrow>
               GlCreateShader GL_FRAGMENT_SHADER \<in> set (gl_calls st)) \<and>
            shaders st' = shaders st \<and> programs st' = programs st) \<and>
         (v \<noteq> 0 \<and> f = 0 \<longrightarrow>
            programId prog = 0 \<and> gl_calls st' = gl_calls st2 @ [GlDeleteShader v] \<and>
            shaders st' = shaders st \<and> programs st' = programs st) \<and>
         (v \<noteq> 0 \<and> f \<noteq> 0 \<and> \<not> link_status drv st4 pid \<longrightarrow>
            programId prog = 0 \<and> GlDeleteProgram pid \<in> set (gl_calls st') \<and>
            programs st' = programs st \<and> shaders st' = shaders st)"
proof (intro conjI impI)
  note ov = compileShader_objects [OF v]
  note of = compileShader_objects [OF f]
  note op = glCreateProgram_fields [OF p]
  {
    assume z: "v = 0"
    with r v have r': "prog = \<lparr>programId = 0, positionAttrib = 0, texCoordAttrib = 0,
        textureUniform = 0, mvpMatrixUniform = 0\<rparr>"
      "st' = LOGE ''Failed to compile vertex shader'' st1"
      by (simp_all add: createShaderProgram_def)
    from r' show "programId prog = 0" by simp
    from r' show "gl_calls st' = gl_calls st1" by simp
    from r' ov show "GlCreateShader GL_FRAGMENT_SHADER \<in> set (gl_calls st') \<Longrightarrow>
        GlCreateShader GL_FRAGMENT_SHADER \<in> set (gl_calls st)" by simp
    from r' ov z show "shaders st' = shaders st" by simp
    from r' ov show "programs st' = programs st" by simp
  }
  {
    assume z: "v \<noteq> 0 \<and> f = 0"
    with r v f have r': "prog = \<lparr>programId = 0, positionAttrib = 0, texCoordAttrib = 0,
        textureUniform = 0, mvpMatrixUniform = 0\<rparr>"
      "st' = glDeleteShader v (LOGE ''Failed to compile fragment shader'' st2)"
      by (simp_all add: createShaderProgram_def)
    from r' show "programId prog = 0" by simp
    from r' show "gl_calls st' = gl_calls st2 @ [GlDeleteShader v]" by simp
    from r' ov of z show "shaders st' = shaders st" by simp
    from r' ov of show "programs st' = programs st" by simp
  }
  {
    assume z: "v \<noteq> 0 \<and> f \<noteq> 0 \<and> \<not> link_status drv st4 pid"
    define st5 where "st5 = gl (GlGetProgramiv pid GL_LINK_STATUS) st4"
    define st6 where "st6 = glDeleteProgram pid
        (LOGE (''Shader program linking failed: '' @ program_info_log drv st5 pid)
           (gl (GlGetProgramInfoLog pid) st5))"
    define st7 where "st7 = glDeleteShader f (glDeleteShader v st6)"
    from r v f p z l have r': "prog = \<lparr>programId = 0, positionAttrib = 0, texCoordAttrib = 0,
        textureUniform = 0, mvpMatrixUniform = 0\<rparr>"
      "st' = checkGLError drv ''createShaderProgram'' st7"
      by (simp_all add: createShaderProgram_def Let_def st5_def st6_def st7_def)
    from r' show "programId prog = 0" by simp
    from r' show "GlDeleteProgram pid \<in> set (gl_calls st')"
      by (simp add: st7_def st6_def)
    have p6: "programs st6 = programs st"
      using op ov of by (simp add: st6_def st5_def l)
    with r' show "programs st' = programs st" by (simp add: st7_def)
    have s6: "shaders st6 = f # v # shaders st"
      using op ov of z by (simp add: st6_def st5_def l)
    with r' z show "shaders st' = shaders st" by (simp add: st7_def)
  }
qed

lemma sample_vertex_bad:
  "fst (compileShader sample_driver GL_VERTEX_SHADER ''bad'' initial_renderer) = 0"
  by code_simp

lemma sample_vertex_ok:
  "fst (compileShader sample_driver GL_VERTEX_SHADER ''ok'' initial_renderer) \<noteq> 0"
  by code_simp

lemma sample_fragment_bad:
  "fst (compileShader sample_driver GL_FRAGMENT_SHADER ''bad''
     (snd (compileShader sample_driver GL_VERTEX_SHADER ''ok'' initial_renderer))) = 0"
  by code_simp

theorem createShaderProgram_failures_release_witness:
  "(\<exists>v st1 f st2 pid st3 st4 prog st'.
      compileShader sample_driver GL_VERTEX_SHADER ''bad'' initial_renderer = (v, st1) \<and>
      compileShader sample_driver GL_FRAGMENT_SHADER ''ok'' st1 = (f, st2) \<and>
      glCreateProgram sample_driver st2 = (pid, st3) \<and>
      st4 = gl (GlLinkProgram pid) (gl (GlAttachShader pid f) (gl (GlAttachShader pid v) st3)) \<and>
      createShaderProgram sample_driver ''bad'' ''ok'' initial_renderer = (prog, st') \<and>
      v = 0 \<and> programId prog = 0 \<and> gl_calls st' = gl_calls st1 \<and>
      shaders st' = shaders initial_renderer \<and> programs st' = programs initial_renderer) \<and>
   (\<exists>v st1 f st2 pid st3 st4 prog st'.
      compileShader sample_driver GL_VERTEX_SHADER ''ok'' initial_renderer = (v, st1) \<and>
      compileShader sample_driver GL_FRAGMENT_SHADER ''bad'' st1 = (f, st2) \<and>
      glCreateProgram sample_driver st2 = (pid, st3) \<and>
      st4 = gl (GlLinkProgram pid) (gl (GlAttachShader pid f) (gl (GlAttachShader pid v) st3)) \<and>
      createShaderProgram sample_driver ''ok'' ''bad'' initial_renderer = (prog, st') \<and>
      v \<noteq> 0 \<and> f = 0 \<and> programId prog = 0 \<and> gl_calls st' = gl_calls st2 @ [GlDeleteShader v] \<and>
      shaders st' = shaders initial_renderer \<and> programs st' = programs initial_renderer) \<and>
   (\<exists>v st1 f st2 pid st3 st4 prog st'.
      compileShader sample_driver GL_VERTEX_SHADER ''unlinkable'' initial_renderer = (v, st1) \<and>
      compileShader sample_driver GL_FRAGMENT_SHADER ''ok'' st1 = (f, st2) \<and>
      glCreateProgram sample_driver st2 = (pid, st3) \<and>
      st4 = gl (GlLinkProgram pid) (gl (GlAttachShader pid f) (gl (GlAttachShader pid v) st3)) \<and>
      createShaderProgram sample_driver ''unlinkable'' ''ok'' initial_renderer = (prog, st') \<and>
      v \<noteq> 0 \<and> f \<noteq> 0 \<and> \<not> link_status sample_driver st4 pid \<and> programId prog = 0 \<and>
      GlDeleteProgram pid \<in> set (gl_calls st') \<and>
      programs st' = programs initial_renderer \<and> shaders st' = shaders initial_renderer)"
proof (intro conjI)
  define v where "v = fst (compileShader sample_driver GL_VERTEX_SHADER ''bad'' initial_renderer)"
  define st1 where "st1 = snd (compileShader sample_driver GL_VERTEX_SHADER ''bad'' initial_renderer)"
  define f where "f = fst (compileShader sample_driver GL_FRAGMENT_SHADER ''ok'' st1)"
  define st2 where "st2 = snd (compileShader sample_driver GL_FRAGMENT_SHADER ''ok'' st1)"
  define pid where "pid = fst (glCreateProgram sample_driver st2)"
  define st3 where "st3 = snd (glCreateProgram sample_driver st2)"
  define st4 where "st4 = gl (GlLinkProgram pid) (gl (GlAttachShader pid f) (gl (GlAttachShader pid v) st3))"
  define prog where "prog = fst (createShaderProgram sample_driver ''bad'' ''ok'' initial_renderer)"
  define st' where "st' = snd (createShaderProgram sample_driver ''bad'' ''ok'' initial_renderer)"
  have h: "compileShader sample_driver GL_VERTEX_SHADER ''bad'' initial_renderer = (v, st1)"
    "compileShader sample_driver GL_FRAGMENT_SHADER ''ok'' st1 = (f, st2)"
    "glCreateProgram sample_driver st2 = (pid, st3)"
    "st4 = gl (GlLinkProgram pid) (gl (GlAttachShader pid f) (gl (GlAttachShader pid v) st3))"
    "createShaderProgram sample_driver ''bad'' ''ok'' initial_renderer = (prog, st')"
    by (simp_all add: v_def st1_def f_def st2_def pid_def st3_def st4_def prog_def st'_def)
  have c: "v = 0" unfolding v_def by (rule sample_vertex_bad)
  from createShaderProgram_failures_release [OF h] c h
  show "\<exists>v st1 f st2 pid st3 st4 prog st'.
      compileShader sample_driver GL_VERTEX_SHADER ''bad'' initial_renderer = (v, st1) \<and>
      compileShader sample_driver GL_FRAGMENT_SHADER ''ok'' st1 = (f, st2) \<and>
      glCreateProgram sample_driver st2 = (pid, st3) \<and>
      st4 = gl (GlLinkProgram pid) (gl (GlAttachShader pid f) (gl (GlAttachShader pid v) st3)) \<and>
      createShaderProgram sample_driver ''bad'' ''ok'' initial_renderer = (prog, st') \<and>
      v = 0 \<and> programId prog = 0 \<and> gl_calls st' = gl_calls st1 \<and>
      shaders st' = shaders initial_renderer \<and> programs st' = programs initial_renderer"
    by blast
next
  define v where "v = fst (compileShader sample_driver GL_VERTEX_SHADER ''ok'' initial_renderer)"
  define st1 where "st1 = snd (compileShader sample_driver GL_VERTEX_SHADER ''ok'' initial_renderer)"
  define f where "f = fst (compileShader sample_driver GL_FRAGMENT_SHADER ''bad'' st1)"
  define st2 where "st2 = snd (compileShader sample_driver GL_FRAGMENT_SHADER ''bad'' st1)"
  define pid where "pid = fst (glCreateProgram sample_driver st2)"
  define st3 where "st3 = snd (glCreateProgram sample_driver st2)"
  define st4 where "st4 = gl (GlLinkProgram pid) (gl (GlAttachShader pid f) (gl (GlAttachShader pid v) st3))"
  define prog where "prog = fst (createShaderProgram sample_driver ''ok'' ''bad'' initial_renderer)"
  define st' where "st' = snd (createShaderProgram sample_driver ''ok'' ''bad'' initial_renderer)"
  have h: "compileShader sample_driver GL_VERTEX_SHADER ''ok'' initial_renderer = (v, st1)"
    "compileShader sample_driver GL_FRAGMENT_SHADER ''bad'' st1 = (f, st2)"
    "glCreateProgram sample_driver st2 = (pid, st3)"
    "st4 = gl (GlLinkProgram pid) (gl (GlAttachShader pid f) (gl (GlAttachShader pid v) st3))"
    "createShaderProgram sample_driver ''ok'' ''bad'' initial_renderer = (prog, st')"
    by (simp_all add: v_def st1_def f_def st2_def pid_def st3_def st4_def prog_def st'_def)
  have c: "v \<noteq> 0" "f = 0" unfolding v_def f_def st1_def
    by (rule sample_vertex_ok, rule sample_fragment_bad)
  from createShaderProgram_failures_release [OF h] c h
  show "\<exists>v st1 f st2 pid st3 st4 prog st'.
      compileShader sample_driver GL_VERTEX_SHADER ''ok'' initial_renderer = (v, st1) \<and>
      compileShader sample_driver GL_FRAGMENT_SHADER ''bad'' st1 = (f, st2) \<and>
      glCreateProgram sample_driver st2 = (pid, st3) \<and>
      st4 = gl (GlLinkProgram pid) (gl (GlAttachShader pid f) (gl (GlAttachShader pid v) st3)) \<and>
      createShaderProgram sample_driver ''ok'' ''bad'' initial_renderer = (prog, st') \<and>
      v \<noteq> 0 \<and> f = 0 \<and> programId prog = 0 \<and> gl_calls st' = gl_calls st2 @ [GlDeleteShader v] \<and>
      shaders st' = shaders initial_renderer \<and> programs st' = programs initial_renderer"
    by blast
next
  define v where "v = fst (compileShader sample_driver GL_VERTEX_SHADER ''unlinkable'' initial_renderer)"
  define st1 where "st1 = snd (compileShader sample_driver GL_VERTEX_SHADER ''unlinkable'' initial_renderer)"
  define f where "f = fst (compileShader sample_driver GL_FRAGMENT_SHADER ''ok'' st1)"
  define st2 where "st2 = snd (compileShader sample_driver GL_FRAGMENT_SHADER ''ok'' st1)"
  define pid where "pid = fst (glCreateProgram sample_driver st2)"
  define st3 where "st3 = snd (glCreateProgram sample_driver st2)"
  define st4 where "st4 = gl (GlLinkProgram pid) (gl (GlAttachShader pid f) (gl (GlAttachShader pid v) st3))"
  define prog where "prog = fst (createShaderProgram sample_driver ''unlinkable'' ''ok'' initial_renderer)"
  define st' where "st' = snd (createShaderProgram sample_driver ''unlinkable'' ''ok'' initial_renderer)"
  have h: "compileShader sample_driver GL_VERTEX_SHADER ''unlinkable'' initial_renderer = (v, st1)"
    "compileShader sample_driver GL_FRAGMENT_SHADER ''ok'' st1 = (f, st2)"
    "glCreateProgram sample_driver st2 = (pid, st3)"
    "st4 = gl (GlLinkProgram pid) (gl (GlAttachShader pid f) (gl (GlAttachShader pid v) st3))"
    "createShaderProgram sample_driver ''unlinkable'' ''ok'' initial_renderer = (prog, st')"
    by (simp_all add: v_def st1_def f_def st2_def pid_def st3_def st4_def prog_def st'_def)
  have c: "v \<noteq> 0 \<and> f \<noteq> 0 \<and> \<not> link_status sample_driver st4 pid"
    unfolding v_def f_def st4_def pid_def st3_def st2_def st1_def by code_simp
  from createShaderProgram_failures_release [OF h] c h
  show "\<exists>v st1 f st2 pid st3 st4 prog st'.
      compileShader sample_driver GL_VERTEX_SHADER ''unlinkable'' initial_renderer = (v, st1) \<and>
      compileShader sample_driver GL_FRAGMENT_SHADER ''ok'' st1 = (f, st2) \<and>
      glCreateProgram sample_driver st2 = (pid, st3) \<and>
      st4 = gl (GlLinkProgram pid) (gl (GlAttachShader pid f) (gl (GlAttachShader pid v) st3)) \<and>
      createShaderProgram sample_driver ''unlinkable'' ''ok'' initial_renderer = (prog, st') \<and>
      v \<noteq> 0 \<and> f \<noteq> 0 \<and> \<not> link_status sample_driver st4 pid \<and> programId prog = 0 \<and>
      GlDeleteProgram pid \<in> set (gl_calls st') \<and>
      programs st' = programs initial_renderer \<and> shaders st' = shaders initial_renderer"
    by blast
qed

subsection \<open>The counters of the boundary layer\<close>

lemma processFrame_success_Some:
  "processFrame px i w h ob = Returned (True, r) \<Longrightarrow> r \<noteq> None"
  by (auto simp: processFrame_def Let_def split: option.splits if_splits sum.splits) metis+

lemma JNI_processFrame_cases:
  assumes "JNI_processFrame px env st a w h = Returned (r, st')"
  shows "(r = None \<and> st' = st) \<or>
         (\<exists>out. r = Some out \<and> in_int_range (frameCount st + 1) \<and>
            st' = (if c_rem (frameCount st + 1) 30 = 0
                   then st\<lparr>frameCount := frameCount st + 1,
                          averageFps := fps_of (duration_ms (frameEnd env) (lastFrameTime st)),
                          lastFrameTime := frameEnd env\<rparr>
                   else st\<lparr>frameCount := frameCount st + 1\<rparr>))"
proof (cases a)
  case None
  with assms show ?thesis by (simp add: JNI_processFrame_def)
next
  case (Some b)
  show ?thesis
  proof (cases "processFrame px (Some b) w h (Some (replicate (length b) 0))")
    case Undefined
    with assms Some show ?thesis
      by (auto simp: JNI_processFrame_def split: if_splits)
  next
    case (Returned x)
    obtain success ob where x: "x = (success, ob)" by (cases x)
    show ?thesis
    proof (cases success)
      case False
      with assms Some Returned x show ?thesis
        by (auto simp: JNI_processFrame_def split: if_splits)
    next
      case True
      with Returned x have "ob \<noteq> None" by (auto dest: processFrame_success_Some)
      then obtain out where "ob = Some out" by auto
      with assms Some Returned x True show ?thesis
        by (auto simp: JNI_processFrame_def Let_def split: if_splits)
    qed
  qed
qed

lemma c_rem_nonneg: "0 \<le> a \<Longrightarrow> c_rem a 30 = a mod 30"
  by (cases "a = 0") (simp_all add: c_rem_def c_div_def minus_mult_div_eq_mod)

lemma fps_of_not_zero: "fps_of d \<noteq> Finite 0"
  by (simp add: fps_of_def)

lemma process_frames_count:
  "process_frames px st calls = Returned (rs, st') \<Longrightarrow>
     frameCount st' = frameCount st + int (length (filter (\<lambda>r. r \<noteq> None) rs))"
proof (induction calls arbitrary: st rs)
  case Nil
  then show ?case by simp
next
  case (Cons call calls)
  obtain env a w h where call: "call = (env, a, w, h)" by (cases call)
  from Cons.prems call obtain r st1 rs1 where
    s: "JNI_processFrame px env st a w h = Returned (r, st1)"
    and t: "process_frames px st1 calls = Returned (rs1, st')" and rs: "rs = r # rs1"
    by (auto split: outcome.splits)
  from JNI_processFrame_cases [OF s]
  have "frameCount st1 = frameCount st + (if r = None then 0 else 1)"
    by (auto split: if_splits)
  with Cons.IH [OF t] rs show ?case by simp
qed

text \<open>
  Claim C10. A call of the boundary-layer \<open>processFrame\<close> that returns null
  leaves the counters as they were; a null input array, an input length other than
  \<open>width * height * 4\<close> and a failure of the frame processor all return null. A
  call that returns an array adds one to the frame counter. Over a sequence of calls
  the counter grows by the number of calls that returned an array, so it never
  decreases.
\<close>

theorem JNI_processFrame_failure_keeps_stats:
  "(JNI_processFrame px env st a w h = Returned (None, st') \<longrightarrow> st' = st) \<and>
   (JNI_processFrame px env st a w h = Returned (Some out, st') \<longrightarrow>
      frameCount st' = frameCount st + 1) \<and>
   (a = None \<longrightarrow> JNI_processFrame px env st a w h = Returned (None, st)) \<and>
   (a = Some b \<and> in_int_range (w * h) \<and> in_int_range (w * h * 4) \<and>
    int (length b) \<noteq> w * h * 4 \<longrightarrow>
      JNI_processFrame px env st a w h = Returned (None, st)) \<and>
   (a = Some b \<and> in_int_range (w * h) \<and> in_int_range (w * h * 4) \<and>
    processFrame px (Some b) w h (Some (replicate (length b) 0)) = Returned (False, ob) \<longrightarrow>
      JNI_processFrame px env st a w h = Returned (None, st)) \<and>
   (process_frames px st calls = Returned (rs, st'') \<longrightarrow>
      frameCount st'' = frameCount st + int (length (filter (\<lambda>r. r \<noteq> None) rs)) \<and>
      frameCount st \<le> frameCount st'')"
proof (intro conjI impI)
  assume "JNI_processFrame px env st a w h = Returned (None, st')"
  from JNI_processFrame_cases [OF this] show "st' = st" by simp
next
  assume "JNI_processFrame px env st a w h = Returned (Some out, st')"
  from JNI_processFrame_cases [OF this] show "frameCount st' = frameCount st + 1"
    by (auto split: if_splits)
next
  assume "a = None"
  then show "JNI_processFrame px env st a w h = Returned (None, st)"
    by (simp add: JNI_processFrame_def)
next
  assume "a = Some b \<and> in_int_range (w * h) \<and> in_int_range (w * h * 4) \<and>
    int (length b) \<noteq> w * h * 4"
  then show "JNI_processFrame px env st a w h = Returned (None, st)"
    by (simp add: JNI_processFrame_def)
next
  assume "a = Some b \<and> in_int_range (w * h) \<and> in_int_range (w * h * 4) \<and>
    processFrame px (Some b) w h (Some (replicate (length b) 0)) = Returned (False, ob)"
  then show "JNI_processFrame px env st a w h = Returned (None, st)"
    by (simp add: JNI_processFrame_def)
next
  assume r: "process_frames px st calls = Returned (rs, st'')"
  from process_frames_count [OF r]
  show "frameCount st'' = frameCount st + int (length (filter (\<lambda>r. r \<noteq> None) rs))" .
  then show "frameCount st \<le> frameCount st''" by simp
qed

lemma c_rem_30_eq_0_iff: "c_rem a 30 = 0 \<longleftrightarrow> 30 dvd a"
proof (cases "0 \<le> a")
  case True
  then show ?thesis by (simp add: c_rem_nonneg dvd_eq_mod_eq_0)
next
  case False
  then have "c_rem a 30 = - ((- a) mod 30)"
    by (simp add: c_rem_def c_div_def algebra_simps minus_mult_div_eq_mod [symmetric])
  then show ?thesis by (simp add: dvd_eq_mod_eq_0 [symmetric])
qed

lemma JNI_processFrame_success:
  assumes "JNI_processFrame px env st a w h = Returned (Some out, st')"
  shows "frameCount st' = frameCount st + 1 \<and>
         (30 dvd frameCount st' \<longrightarrow>
            averageFps st' = fps_of (duration_ms (frameEnd env) (lastFrameTime st)) \<and>
            lastFrameTime st' = frameEnd env) \<and>
         (\<not> 30 dvd frameCount st' \<longrightarrow>
            averageFps st' = averageFps st \<and> lastFrameTime st' = lastFrameTime st)"
  using JNI_processFrame_cases [OF assms]
  by (auto simp: c_rem_30_eq_0_iff split: if_splits)

lemma thirty_frames:
  assumes "process_frames px st calls = Returned (rs, st')"
    and "list_all (\<lambda>r. r \<noteq> None) rs"
    and "0 \<le> frameCount st" and "frameCount st + int (length calls) = 30" and "calls \<noteq> []"
  shows "frameCount st' = 30 \<and>
         averageFps st' = fps_of (duration_ms (frameEnd (fst (last calls))) (lastFrameTime st))"
  using assms
proof (induction calls arbitrary: st rs)
  case Nil
  then show ?case by simp
next
  case (Cons call calls)
  obtain env a w h where call: "call = (env, a, w, h)" by (cases call)
  from Cons.prems(1) call obtain r st1 rs1 where
    s: "JNI_processFrame px env st a w h = Returned (r, st1)"
    and t: "process_frames px st1 calls = Returned (rs1, st')" and rs: "rs = r # rs1"
    by (auto split: outcome.splits)
  from Cons.prems(2) rs obtain out where r: "r = Some out" and ok: "list_all (\<lambda>r. r \<noteq> None) rs1"
    by auto
  note step = JNI_processFrame_success [OF s [unfolded r]]
  show ?case
  proof (cases "calls = []")
    case True
    with Cons.prems(4) have "frameCount st = 29" by simp
    with step have "frameCount st1 = 30"
      "averageFps st1 = fps_of (duration_ms (frameEnd env) (lastFrameTime st))" by simp_all
    with t True call show ?thesis by simp
  next
    case False
    then have "1 \<le> int (length calls)" by (cases calls) simp_all
    moreover from step have "frameCount st1 = frameCount st + 1" by simp
    moreover from Cons.prems(4) have "frameCount st + 1 + int (length calls) = 30" by simp
    ultimately have c: "0 < frameCount st1" "frameCount st1 < 30"
      "frameCount st1 + int (length calls) = 30"
      using Cons.prems(3) by linarith+
    then have "\<not> 30 dvd frameCount st1" by (simp add: zdvd_not_zless)
    with step have l: "lastFrameTime st1 = lastFrameTime st" by simp
    from Cons.IH [OF t ok _ c(3) False] c(1) l False show ?thesis by simp
  qed
qed

lemma fps_formula:
  "fps_of (duration_ms t1 t0) =
     (let d = t1 - t0; ms = sgn d * (\<bar>d\<bar> div 1000000)
      in if ms = 0 then PlusInfinity else Finite (30000 / of_int ms))"
  by (simp add: fps_of_def duration_ms_def c_div_def Let_def)

text \<open>
  Claim C9. A successful call adds one to the frame counter; when the new count is a
  multiple of 30 the average FPS becomes 30000 divided by \<open>ms\<close>, the nanoseconds
  from \<open>lastFrameTime\<close> to the end of the call divided by 1000000 and truncated
  towards zero (plus infinity when \<open>ms\<close> is 0, never the initial value 0), and
  \<open>lastFrameTime\<close> is set to the end of the call; at every other count both stay
  as they were. After \<open>nativeInit\<close>, 30 successful calls leave the counter at 30 and
  the average FPS at 30000 divided by the milliseconds from the reset to the end of the
  30th call.
\<close>

theorem fps_recomputed_every_30_frames:
  "(JNI_processFrame px env st a w h = Returned (Some out, st') \<longrightarrow>
      frameCount st' = frameCount st + 1 \<and>
      (30 dvd frameCount st' \<longrightarrow>
         averageFps st' =
           (let d = frameEnd env - lastFrameTime st; ms = sgn d * (\<bar>d\<bar> div 1000000)
            in if ms = 0 then PlusInfinity else Finite (30000 / of_int ms)) \<and>
         averageFps st' \<noteq> Finite 0 \<and> lastFrameTime st' = frameEnd env) \<and>
      (\<not> 30 dvd frameCount st' \<longrightarrow>
         averageFps st' = averageFps st \<and> lastFrameTime st' = lastFrameTime st)) \<and>
   (length calls = 30 \<and> process_frames px (nativeInit t0) calls = Returned (rs, st'') \<and>
    list_all (\<lambda>r. r \<noteq> None) rs \<longrightarrow>
      frameCount st'' = 30 \<and>
      averageFps st'' =
        (let d = frameEnd (fst (last calls)) - t0; ms = sgn d * (\<bar>d\<bar> div 1000000)
         in if ms = 0 then PlusInfinity else Finite (30000 / of_int ms)) \<and>
      averageFps st'' \<noteq> Finite 0)"
proof (intro conjI impI)
  assume s: "JNI_processFrame px env st a w h = Returned (Some out, st')"
  note step = JNI_processFrame_success [OF s]
  from step show "frameCount st' = frameCount st + 1" by simp
  {
    assume d: "30 dvd frameCount st'"
    with step have f: "averageFps st' = fps_of (duration_ms (frameEnd env) (lastFrameTime st))"
      by simp
    then show "averageFps st' =
           (let d = frameEnd env - lastFrameTime st; ms = sgn d * (\<bar>d\<bar> div 1000000)
            in if ms = 0 then PlusInfinity else Finite (30000 / of_int ms))"
      by (simp only: fps_formula)
    from f show "averageFps st' \<noteq> Finite 0" by (simp add: fps_of_not_zero)
    from d step show "lastFrameTime st' = frameEnd env" by simp
  }
  {
    assume d: "\<not> 30 dvd frameCount st'"
    with step show "averageFps st' = averageFps st" by simp
    from d step show "lastFrameTime st' = lastFrameTime st" by simp
  }
next
  assume h: "length calls = 30 \<and> process_frames px (nativeInit t0) calls = Returned (rs, st'') \<and>
    list_all (\<lambda>r. r \<noteq> None) rs"
  then have ne: "calls \<noteq> []" by auto
  from h have "frameCount (nativeInit t0) + int (length calls) = 30" "0 \<le> frameCount (nativeInit t0)"
    by (simp_all add: nativeInit_def)
  with thirty_frames [of px "nativeInit t0" calls rs st''] h ne
  have r: "frameCount st'' = 30"
    "averageFps st'' = fps_of (duration_ms (frameEnd (fst (last calls))) (lastFrameTime (nativeInit t0)))"
    by simp_all
  from r show "frameCount st'' = 30" by simp
  from r have f: "averageFps st'' = fps_of (duration_ms (frameEnd (fst (last calls))) t0)"
    by (simp add: nativeInit_def)
  then show "averageFps st'' =
        (let d = frameEnd (fst (last calls)) - t0; ms = sgn d * (\<bar>d\<bar> div 1000000)
         in if ms = 0 then PlusInfinity else Finite (30000 / of_int ms))"
    by (simp only: fps_formula)
  from f show "averageFps st'' \<noteq> Finite 0" by (simp add: fps_of_not_zero)
qed

lemma processFrame_sample_zeroed:
  "processFrame sample_px (Some sample_frame) 2 1 (Some (replicate 8 0)) =
      Returned (True, Some [255, 255, 255, 255, 0, 0, 0, 0])"
  by code_simp

lemma sample_call_step:
  assumes "0 \<le> n" and "n < 30"
  shows "JNI_processFrame sample_px sample_env
     \<lparr>lastFrameTime = 0, frameCount = n, averageFps = Finite 0\<rparr> (Some sample_frame) 2 1 =
     Returned (Some [255, 255, 255, 255, 0, 0, 0, 0],
           if n = 29
           then \<lparr>lastFrameTime = 2000000000, frameCount = 30, averageFps = Finite 15\<rparr>
           else \<lparr>lastFrameTime = 0, frameCount = n + 1, averageFps = Finite 0\<rparr>)"
proof -
  have l: "length sample_frame = 8" by (simp add: sample_frame_def)
  have r: "in_int_range (2 * 1)" "in_int_range (2 * 1 * 4)" "in_int_range (n + 1)"
    using assms by (simp_all add: in_int_range_def)
  have c: "c_rem (n + 1) 30 = 0 \<longleftrightarrow> n = 29"
    using assms by (simp add: c_rem_nonneg) presburger
  have f: "fps_of (duration_ms 2000000000 0) = Finite 15"
    by (simp add: fps_of_def duration_ms_def c_div_def)
  show ?thesis
    using r c by (simp add: JNI_processFrame_def l processFrame_sample_zeroed sample_env_def f)
qed

lemma sample_calls_up_to_30:
  "0 \<le> n \<Longrightarrow> n + int k = 29 \<Longrightarrow>
   process_frames sample_px \<lparr>lastFrameTime = 0, frameCount = n, averageFps = Finite 0\<rparr>
     (replicate (Suc k) sample_call) =
     Returned (replicate (Suc k) (Some [255, 255, 255, 255, 0, 0, 0, 0]),
       \<lparr>lastFrameTime = 2000000000, frameCount = 30, averageFps = Finite 15\<rparr>)"
proof (induction k arbitrary: n)
  case 0
  then show ?case by (simp add: sample_call_def sample_call_step)
next
  case (Suc k)
  from Suc.prems have n: "0 \<le> n" "n < 30" "n \<noteq> 29" "0 \<le> n + 1" "n + 1 + int k = 29"
    by simp_all
  have "process_frames sample_px \<lparr>lastFrameTime = 0, frameCount = n, averageFps = Finite 0\<rparr>
     (sample_call # replicate (Suc k) sample_call) =
     Returned (Some [255, 255, 255, 255, 0, 0, 0, 0] #
         replicate (Suc k) (Some [255, 255, 255, 255, 0, 0, 0, 0]),
       \<lparr>lastFrameTime = 2000000000, frameCount = 30, averageFps = Finite 15\<rparr>)"
    unfolding sample_call_def [THEN arg_cong [where f = "\<lambda>c. c # replicate (Suc k) sample_call"]]
    by (simp only: process_frames.simps sample_call_step [OF n(1,2)] n(3) if_False
        outcome.case prod.case Suc.IH [OF n(4,5)])
  then show ?case by simp
qed

lemma thirty_sample_calls:
  "process_frames sample_px (nativeInit 0) (replicate 30 sample_call) =
     Returned (replicate 30 (Some [255, 255, 255, 255, 0, 0, 0, 0]),
       \<lparr>lastFrameTime = 2000000000, frameCount = 30, averageFps = Finite 15\<rparr>)"
  using sample_calls_up_to_30 [of 0 29] by (simp add: nativeInit_def)

lemma first_sample_call:
  "JNI_processFrame sample_px sample_env (nativeInit 0) (Some sample_frame) 2 1 =
     Returned (Some [255, 255, 255, 255, 0, 0, 0, 0],
       \<lparr>lastFrameTime = 0, frameCount = 1, averageFps = Finite 0\<rparr>)"
  using sample_call_step [of 0] by (simp add: nativeInit_def)

lemma last_sample_call:
  "JNI_processFrame sample_px sample_env
     \<lparr>lastFrameTime = 0, frameCount = 29, averageFps = Finite 0\<rparr> (Some sample_frame) 2 1 =
     Returned (Some [255, 255, 255, 255, 0, 0, 0, 0],
       \<lparr>lastFrameTime = 2000000000, frameCount = 30, averageFps = Finite 15\<rparr>)"
  using sample_call_step [of 29] by simp

lemma thirtieth_call:
  assumes "input_elements env" "new_array env" "output_elements env"
  shows "JNI_processFrame sample_px env
     \<lparr>lastFrameTime = 0, frameCount = 29, averageFps = Finite 0\<rparr> (Some sample_frame) 2 1 =
     Returned (Some [255, 255, 255, 255, 0, 0, 0, 0],
       \<lparr>lastFrameTime = frameEnd env, frameCount = 30,
        averageFps = fps_of (duration_ms (frameEnd env) 0)\<rparr>)"
proof -
  have l: "length sample_frame = 8" by (simp add: sample_frame_def)
  have r: "in_int_range (2 * 1)" "in_int_range (2 * 1 * 4)" "in_int_range (29 + 1)"
    by (simp_all add: in_int_range_def)
  have c: "c_rem (29 + 1) 30 = 0" by (simp add: c_rem_def c_div_def)
  show ?thesis
    using r c assms by (simp add: JNI_processFrame_def l processFrame_sample_zeroed)
qed

lemma sample_fps_values:
  "fps_of (duration_ms 2000000000 0) = Finite 15"
  "fps_of (duration_ms 1500999999 0) = Finite 20"
  "fps_of (duration_ms 999999 0) = PlusInfinity"
  by (simp_all add: fps_of_def duration_ms_def c_div_def)

lemma thirtieth_call_sample_env:
  "JNI_processFrame sample_px sample_env
     \<lparr>lastFrameTime = 0, frameCount = 29, averageFps = Finite 0\<rparr> (Some sample_frame) 2 1 =
     Returned (Some [255, 255, 255, 255, 0, 0, 0, 0],
       \<lparr>lastFrameTime = 2000000000, frameCount = 30, averageFps = Finite 15\<rparr>)"
proof -
  have e: "input_elements sample_env" "new_array sample_env" "output_elements sample_env"
    and fe: "frameEnd sample_env = 2000000000"
    by (simp_all add: sample_env_def)
  from thirtieth_call [OF e] show ?thesis
    by (simp only: fe sample_fps_values)
qed

lemma thirtieth_call_late_env:
  "JNI_processFrame sample_px late_env
     \<lparr>lastFrameTime = 0, frameCount = 29, averageFps = Finite 0\<rparr> (Some sample_frame) 2 1 =
     Returned (Some [255, 255, 255, 255, 0, 0, 0, 0],
       \<lparr>lastFrameTime = 1500999999, frameCount = 30, averageFps = Finite 20\<rparr>)"
proof -
  have e: "input_elements late_env" "new_array late_env" "output_elements late_env"
    and fe: "frameEnd late_env = 1500999999"
    by (simp_all add: late_env_def)
  from thirtieth_call [OF e] show ?thesis
    by (simp only: fe sample_fps_values)
qed

lemma thirtieth_call_instant_env:
  "JNI_processFrame sample_px instant_env
     \<lparr>lastFrameTime = 0, frameCount = 29, averageFps = Finite 0\<rparr> (Some sample_frame) 2 1 =
     Returned (Some [255, 255, 255, 255, 0, 0, 0, 0],
       \<lparr>lastFrameTime = 999999, frameCount = 30, averageFps = PlusInfinity\<rparr>)"
proof -
  have e: "input_elements instant_env" "new_array instant_env" "output_elements instant_env"
    and fe: "frameEnd instant_env = 999999"
    by (simp_all add: instant_env_def)
  from thirtieth_call [OF e] show ?thesis
    by (simp only: fe sample_fps_values)
qed

theorem fps_recomputed_every_30_frames_witness:
  "JNI_processFrame sample_px sample_env (nativeInit 0) (Some sample_frame) 2 1 =
     Returned (Some [255, 255, 255, 255, 0, 0, 0, 0],
       \<lparr>lastFrameTime = 0, frameCount = 1, averageFps = Finite 0\<rparr>) \<and>
   \<not> (30::int) dvd 1 \<and>
   JNI_processFrame sample_px sample_env
     \<lparr>lastFrameTime = 0, frameCount = 29, averageFps = Finite 0\<rparr> (Some sample_frame) 2 1 =
     Returned (Some [255, 255, 255, 255, 0, 0, 0, 0],
       \<lparr>lastFrameTime = 2000000000, frameCount = 30, averageFps = Finite 15\<rparr>) \<and>
   (30::int) dvd 30 \<and>
   (let d = frameEnd sample_env - 0; ms = sgn d * (\<bar>d\<bar> div 1000000)
    in if ms = 0 then PlusInfinity else Finite (30000 / of_int ms)) = Finite 15 \<and>
   JNI_processFrame sample_px late_env
     \<lparr>lastFrameTime = 0, frameCount = 29, averageFps = Finite 0\<rparr> (Some sample_frame) 2 1 =
     Returned (Some [255, 255, 255, 255, 0, 0, 0, 0],
       \<lparr>lastFrameTime = 1500999999, frameCount = 30, averageFps = Finite 20\<rparr>) \<and>
   (let d = frameEnd late_env - 0; ms = sgn d * (\<bar>d\<bar> div 1000000)
    in if ms = 0 then PlusInfinity else Finite (30000 / of_int ms)) = Finite 20 \<and>
   JNI_processFrame sample_px instant_env
     \<lparr>lastFrameTime = 0, frameCount = 29, averageFps = Finite 0\<rparr> (Some sample_frame) 2 1 =
     Returned (Some [255, 255, 255, 255, 0, 0, 0, 0],
       \<lparr>lastFrameTime = 999999, frameCount = 30, averageFps = PlusInfinity\<rparr>) \<and>
   (let d = frameEnd instant_env - 0; ms = sgn d * (\<bar>d\<bar> div 1000000)
    in if ms = 0 then PlusInfinity else Finite (30000 / of_int ms)) = PlusInfinity \<and>
   length (replicate 30 sample_call) = 30 \<and>
   process_frames sample_px (nativeInit 0) (replicate 30 sample_call) =
     Returned (replicate 30 (Some [255, 255, 255, 255, 0, 0, 0, 0]),
       \<lparr>lastFrameTime = 2000000000, frameCount = 30, averageFps = Finite 15\<rparr>) \<and>
   list_all (\<lambda>r. r \<noteq> None) (replicate 30 (Some [255, 255, 255, 255, 0, 0, 0, (0::u8)])) \<and>
   (let d = frameEnd (fst (last (replicate 30 sample_call))) - 0; ms = sgn d * (\<bar>d\<bar> div 1000000)
    in if ms = 0 then PlusInfinity else Finite (30000 / of_int ms)) = Finite 15 \<and>
   Finite 15 \<noteq> Finite 0"
proof -
  let ?st = "\<lparr>lastFrameTime = 0, frameCount = 29, averageFps = Finite 0\<rparr>"
  let ?st30 = "\<lparr>lastFrameTime = 2000000000, frameCount = 30, averageFps = Finite 15\<rparr>"
  let ?o = "[255, 255, 255, 255, 0, 0, 0, 0 :: u8]"
  have a: "list_all (\<lambda>r. r \<noteq> None) (replicate 30 (Some ?o))"
    by (simp add: list_all_iff)
  have d: "\<And>t f. (30::int) dvd frameCount \<lparr>lastFrameTime = t, frameCount = 30, averageFps = f\<rparr>"
    by simp
  have "JNI_processFrame sample_px sample_env ?st (Some sample_frame) 2 1 =
        Returned (Some ?o, \<lparr>lastFrameTime = 2000000000, frameCount = 30, averageFps = Finite 15\<rparr>) \<longrightarrow>
      frameCount \<lparr>lastFrameTime = 2000000000, frameCount = 30, averageFps = Finite 15\<rparr> = frameCount ?st + 1 \<and>
      (30 dvd frameCount \<lparr>lastFrameTime = 2000000000, frameCount = 30, averageFps = Finite 15\<rparr> \<longrightarrow>
         averageFps \<lparr>lastFrameTime = 2000000000, frameCount = 30, averageFps = Finite 15\<rparr> =
           (let d = frameEnd sample_env - lastFrameTime ?st; ms = sgn d * (\<bar>d\<bar> div 1000000)
            in if ms = 0 then PlusInfinity else Finite (30000 / of_int ms)) \<and>
         averageFps \<lparr>lastFrameTime = 2000000000, frameCount = 30, averageFps = Finite 15\<rparr> \<noteq> Finite 0 \<and>
         lastFrameTime \<lparr>lastFrameTime = 2000000000, frameCount = 30, averageFps = Finite 15\<rparr> = frameEnd sample_env) \<and>
      (\<not> 30 dvd frameCount \<lparr>lastFrameTime = 2000000000, frameCount = 30, averageFps = Finite 15\<rparr> \<longrightarrow>
         averageFps \<lparr>lastFrameTime = 2000000000, frameCount = 30, averageFps = Finite 15\<rparr> = averageFps ?st \<and>
         lastFrameTime \<lparr>lastFrameTime = 2000000000, frameCount = 30, averageFps = Finite 15\<rparr> = lastFrameTime ?st)"
    by (rule fps_recomputed_every_30_frames [THEN conjunct1])
  with thirtieth_call_sample_env d
  have "averageFps \<lparr>lastFrameTime = 2000000000, frameCount = 30, averageFps = Finite 15\<rparr> =
      (let d = frameEnd sample_env - lastFrameTime ?st; ms = sgn d * (\<bar>d\<bar> div 1000000)
       in if ms = 0 then PlusInfinity else Finite (30000 / of_int ms))"
    by blast
  then have 1: "(let d = frameEnd sample_env - 0; ms = sgn d * (\<bar>d\<bar> div 1000000)
    in if ms = 0 then PlusInfinity else Finite (30000 / of_int ms)) = Finite 15"
    by (simp only: stats.simps)
  have "JNI_processFrame sample_px late_env ?st (Some sample_frame) 2 1 =
        Returned (Some ?o, \<lparr>lastFrameTime = 1500999999, frameCount = 30, averageFps = Finite 20\<rparr>) \<longrightarrow>
      frameCount \<lparr>lastFrameTime = 1500999999, frameCount = 30, averageFps = Finite 20\<rparr> = frameCount ?st + 1 \<and>
      (30 dvd frameCount \<lparr>lastFrameTime = 1500999999, frameCount = 30, averageFps = Finite 20\<rparr> \<longrightarrow>
         averageFps \<lparr>lastFrameTime = 1500999999, frameCount = 30, averageFps = Finite 20\<rparr> =
           (let d = frameEnd late_env - lastFrameTime ?st; ms = sgn d * (\<bar>d\<bar> div 1000000)
            in if ms = 0 then PlusInfinity else Finite (30000 / of_int ms)) \<and>
         averageFps \<lparr>lastFrameTime = 1500999999, frameCount = 30, averageFps = Finite 20\<rparr> \<noteq> Finite 0 \<and>
         lastFrameTime \<lparr>lastFrameTime = 1500999999, frameCount = 30, averageFps = Finite 20\<rparr> = frameEnd late_env) \<and>
      (\<not> 30 dvd frameCount \<lparr>lastFrameTime = 1500999999, frameCount = 30, averageFps = Finite 20\<rparr> \<longrightarrow>
         averageFps \<lparr>lastFrameTime = 1500999999, frameCount = 30, averageFps = Finite 20\<rparr> = averageFps ?st \<and>
         lastFrameTime \<lparr>lastFrameTime = 1500999999, frameCount = 30, averageFps = Finite 20\<rparr> = lastFrameTime ?st)"
    by (rule fps_recomputed_every_30_frames [THEN conjunct1])
  with thirtieth_call_late_env d
  have "averageFps \<lparr>lastFrameTime = 1500999999, frameCount = 30, averageFps = Finite 20\<rparr> =
      (let d = frameEnd late_env - lastFrameTime ?st; ms = sgn d * (\<bar>d\<bar> div 1000000)
       in if ms = 0 then PlusInfinity else Finite (30000 / of_int ms))"
    by blast
  then have 2: "(let d = frameEnd late_env - 0; ms = sgn d * (\<bar>d\<bar> div 1000000)
    in if ms = 0 then PlusInfinity else Finite (30000 / of_int ms)) = Finite 20"
    by (simp only: stats.simps)
  have "JNI_processFrame sample_px instant_env ?st (Some sample_frame) 2 1 =
        Returned (Some ?o, \<lparr>lastFrameTime = 999999, frameCount = 30, averageFps = PlusInfinity\<rparr>) \<longrightarrow>
      frameCount \<lparr>lastFrameTime = 999999, frameCount = 30, averageFps = PlusInfinity\<rparr> = frameCount ?st + 1 \<and>
      (30 dvd frameCount \<lparr>lastFrameTime = 999999, frameCount = 30, averageFps = PlusInfinity\<rparr> \<longrightarrow>
         averageFps \<lparr>lastFrameTime = 999999, frameCount = 30, averageFps = PlusInfinity\<rparr> =
           (let d = frameEnd instant_env - lastFrameTime ?st; ms = sgn d * (\<bar>d\<bar> div 1000000)
            in if ms = 0 then PlusInfinity else Finite (30000 / of_int ms)) \<and>
         averageFps \<lparr>lastFrameTime = 999999, frameCount = 30, averageFps = PlusInfinity\<rparr> \<noteq> Finite 0 \<and>
         lastFrameTime \<lparr>lastFrameTime = 999999, frameCount = 30, averageFps = PlusInfinity\<rparr> = frameEnd instant_env) \<and>
      (\<not> 30 dvd frameCount \<lparr>lastFrameTime = 999999, frameCount = 30, averageFps = PlusInfinity\<rparr> \<longrightarrow>
         averageFps \<lparr>lastFrameTime = 999999, frameCount = 30, averageFps = PlusInfinity\<rparr> = averageFps ?st \<and>
         lastFrameTime \<lparr>lastFrameTime = 999999, frameCount = 30, averageFps = PlusInfinity\<rparr> = lastFrameTime ?st)"
    by (rule fps_recomputed_every_30_frames [THEN conjunct1])
  with thirtieth_call_instant_env d
  have "averageFps \<lparr>lastFrameTime = 999999, frameCount = 30, averageFps = PlusInfinity\<rparr> =
      (let d = frameEnd instant_env - lastFrameTime ?st; ms = sgn d * (\<bar>d\<bar> div 1000000)
       in if ms = 0 then PlusInfinity else Finite (30000 / of_int ms))"
    by blast
  then have 3: "(let d = frameEnd instant_env - 0; ms = sgn d * (\<bar>d\<bar> div 1000000)
    in if ms = 0 then PlusInfinity else Finite (30000 / of_int ms)) = PlusInfinity"
    by (simp only: stats.simps)
  have pre: "length (replicate 30 sample_call) = 30 \<and>
      process_frames sample_px (nativeInit 0) (replicate 30 sample_call) =
        Returned (replicate 30 (Some ?o), ?st30) \<and>
      list_all (\<lambda>r. r \<noteq> None) (replicate 30 (Some ?o))"
    using thirty_sample_calls a by simp
  have "length (replicate 30 sample_call) = 30 \<and>
      process_frames sample_px (nativeInit 0) (replicate 30 sample_call) =
        Returned (replicate 30 (Some ?o), ?st30) \<and>
      list_all (\<lambda>r. r \<noteq> None) (replicate 30 (Some ?o)) \<longrightarrow>
      frameCount ?st30 = 30 \<and>
      averageFps ?st30 =
        (let d = frameEnd (fst (last (replicate 30 sample_call))) - 0;
           ms = sgn d * (\<bar>d\<bar> div 1000000)
         in if ms = 0 then PlusInfinity else Finite (30000 / of_int ms)) \<and>
      averageFps ?st30 \<noteq> Finite 0"
    by (rule fps_recomputed_every_30_frames [THEN conjunct2])
  with pre
  have "averageFps ?st30 =
      (let d = frameEnd (fst (last (replicate 30 sample_call))) - 0;
         ms = sgn d * (\<bar>d\<bar> div 1000000)
       in if ms = 0 then PlusInfinity else Finite (30000 / of_int ms))"
    by blast
  then have 4: "(let d = frameEnd (fst (last (replicate 30 sample_call))) - 0;
       ms = sgn d * (\<bar>d\<bar> div 1000000)
    in if ms = 0 then PlusInfinity else Finite (30000 / of_int ms)) = Finite 15"
    by (simp only: stats.simps)
  have 5: "\<not> (30::int) dvd 1" "(30::int) dvd 30" "length (replicate 30 sample_call) = 30"
    "Finite 15 \<noteq> Finite 0" by simp_all
  from first_sample_call thirtieth_call_sample_env thirtieth_call_late_env
    thirtieth_call_instant_env thirty_sample_calls a 1 2 3 4 5
  show ?thesis by (intro conjI)
qed

lemma processFrame_empty_frame:
  "processFrame sample_px (Some []) 0 0 (Some (replicate (length ([] :: u8 list)) 0)) =
     Returned (False, Some [])"
  by code_simp

theorem JNI_processFrame_failure_keeps_stats_witness:
  "JNI_processFrame sample_px sample_env (nativeInit 0) None 2 1 = Returned (None, nativeInit 0) \<and>
   in_int_range (2 * 1) \<and> in_int_range (2 * 1 * 4) \<and> int (length [1, 2, 3 :: u8]) \<noteq> 2 * 1 * 4 \<and>
   JNI_processFrame sample_px sample_env (nativeInit 0) (Some [1, 2, 3]) 2 1 =
     Returned (None, nativeInit 0) \<and>
   in_int_range (0 * 0) \<and> in_int_range (0 * 0 * 4) \<and>
   processFrame sample_px (Some []) 0 0 (Some (replicate (length ([] :: u8 list)) 0)) =
     Returned (False, Some []) \<and>
   JNI_processFrame sample_px sample_env (nativeInit 0) (Some []) 0 0 =
     Returned (None, nativeInit 0) \<and>
   JNI_processFrame sample_px sample_env (nativeInit 0) (Some sample_frame) 2 1 =
     Returned (Some [255, 255, 255, 255, 0, 0, 0, 0],
       \<lparr>lastFrameTime = 0, frameCount = 1, averageFps = Finite 0\<rparr>) \<and>
   frameCount \<lparr>lastFrameTime = 0, frameCount = 1, averageFps = Finite 0\<rparr> =
     frameCount (nativeInit 0) + 1 \<and>
   process_frames sample_px (nativeInit 0) [(sample_env, None, 2, 1), sample_call] =
     Returned ([None, Some [255, 255, 255, 255, 0, 0, 0, 0]],
       \<lparr>lastFrameTime = 0, frameCount = 1, averageFps = Finite 0\<rparr>)"
proof -
  note t = JNI_processFrame_failure_keeps_stats
  have r: "in_int_range (2 * 1)" "in_int_range (2 * 1 * 4)" "in_int_range (0 * 0)"
    "in_int_range (0 * 0 * 4)" "int (length [1, 2, 3 :: u8]) \<noteq> 2 * 1 * 4"
    by (simp_all add: in_int_range_def)
  from t [where px = sample_px and env = sample_env and st = "nativeInit 0" and a = None
      and w = 2 and h = 1]
  have 1: "JNI_processFrame sample_px sample_env (nativeInit 0) None 2 1 =
      Returned (None, nativeInit 0)" by simp
  from t [where px = sample_px and env = sample_env and st = "nativeInit 0"
      and a = "Some [1, 2, 3]" and w = 2 and h = 1 and b = "[1, 2, 3]"] r
  have 2: "JNI_processFrame sample_px sample_env (nativeInit 0) (Some [1, 2, 3]) 2 1 =
      Returned (None, nativeInit 0)" by simp
  from t [where px = sample_px and env = sample_env and st = "nativeInit 0"
      and a = "Some []" and w = 0 and h = 0 and b = "[]" and ob = "Some []"] r
    processFrame_empty_frame
  have 3: "JNI_processFrame sample_px sample_env (nativeInit 0) (Some []) 0 0 =
      Returned (None, nativeInit 0)" by simp
  have 4: "process_frames sample_px (nativeInit 0) [(sample_env, None, 2, 1), sample_call] =
     Returned ([None, Some [255, 255, 255, 255, 0, 0, 0, 0]],
       \<lparr>lastFrameTime = 0, frameCount = 1, averageFps = Finite 0\<rparr>)"
    by (simp add: sample_call_def 1 first_sample_call)
  from t [where px = sample_px and env = sample_env and st = "nativeInit 0"
      and a = "Some sample_frame" and w = 2 and h = 1 and out = "[255, 255, 255, 255, 0, 0, 0, 0]"
      and st' = "\<lparr>lastFrameTime = 0, frameCount = 1, averageFps = Finite 0\<rparr>"]
    first_sample_call
  have 5: "frameCount \<lparr>lastFrameTime = 0, frameCount = 1, averageFps = Finite 0\<rparr> =
     frameCount (nativeInit 0) + 1" by simp
  from r 1 2 3 4 5 processFrame_empty_frame first_sample_call show ?thesis by simp
qed

end
